theory Spec2Isabelle
  imports Main "HOL-Library.Word" "HOL-Library.AList"
begin

section \<open>JavaScript strings and buffers\<close>

text \<open>
  The actions work on JavaScript strings. A string is modelled as a \<open>char list\<close>; the
  string methods the actions call are written out below, following ECMA-262.
  \<open>None\<close> of type \<open>string option\<close> stands for the JavaScript value \<open>undefined\<close>
  where a string was expected.
\<close>

type_synonym byte = "8 word"

text \<open>\<open>s.includes(',')\<close> for a one-character needle.\<close>

definition str_includes :: "string \<Rightarrow> char \<Rightarrow> bool" where
  "str_includes s c = (c \<in> set s)"

text \<open>\<open>s.split(sep)\<close> for a one-character separator: the pieces between the separators,
  always at least one piece.\<close>

fun str_split :: "string \<Rightarrow> char \<Rightarrow> string list" where
  "str_split [] sep = [[]]"
| "str_split (c # cs) sep =
     (if c = sep then [] # str_split cs sep
      else (case str_split cs sep of
              [] \<Rightarrow> [[c]]
            | p # ps \<Rightarrow> (c # p) # ps))"

text \<open>\<open>xs[i]\<close>: reading past the end of an array gives \<open>undefined\<close>.\<close>

definition js_index :: "'a list \<Rightarrow> nat \<Rightarrow> 'a option" where
  "js_index xs i = (if i < length xs then Some (xs ! i) else None)"

text \<open>\<open>s.trim()\<close>. Of the white space and line terminators of ECMA-262, the ones that fit
  in one 8-bit code unit are TAB, LF, VT, FF, CR, SP and NBSP.\<close>

definition is_js_space :: "char \<Rightarrow> bool" where
  "is_js_space c = (of_char c \<in> {9, 10, 11, 12, 13, 32, 160 :: nat})"

definition trim :: "string \<Rightarrow> string" where
  "trim s = rev (dropWhile is_js_space (rev (dropWhile is_js_space s)))"

definition startsWith :: "string \<Rightarrow> string \<Rightarrow> bool" where
  "startsWith s p = (take (length p) s = p)"

text \<open>\<open>s.substring(0, n)\<close>.\<close>

definition substring0 :: "string \<Rightarrow> nat \<Rightarrow> string" where
  "substring0 s n = take n s"

text \<open>Decimal rendering of a number inside a template literal.\<close>

definition digit_char :: "nat \<Rightarrow> char" where
  "digit_char d = ''0123456789'' ! (d mod 10)"

function string_of_nat :: "nat \<Rightarrow> string" where
  "string_of_nat n =
     (if n < 10 then [digit_char n]
      else string_of_nat (n div 10) @ [digit_char (n mod 10)])"
  by pat_completeness auto
termination
  by (relation "measure (\<lambda>n. n)") auto

declare string_of_nat.simps [simp del]

text \<open>\<open>buffer.toString('base64')\<close>: RFC 4648 with padding.\<close>

definition b64_alphabet :: string where
  "b64_alphabet = ''ABCDEFGHIJKLMNOPQRSTUVWXYZabcdefghijklmnopqrstuvwxyz0123456789+/''"

definition b64_char :: "nat \<Rightarrow> char" where
  "b64_char n = b64_alphabet ! (n mod 64)"

fun toBase64 :: "byte list \<Rightarrow> string" where
  "toBase64 [] = []"
| "toBase64 [a] =
     [b64_char (unat a div 4), b64_char ((unat a mod 4) * 16), CHR ''='', CHR ''='']"
| "toBase64 [a, b] =
     [b64_char (unat a div 4), b64_char ((unat a mod 4) * 16 + unat b div 16),
      b64_char ((unat b mod 16) * 4), CHR ''='']"
| "toBase64 (a # b # c # rest) =
     [b64_char (unat a div 4), b64_char ((unat a mod 4) * 16 + unat b div 16),
      b64_char ((unat b mod 16) * 4 + unat c div 64), b64_char (unat c mod 64)]
     @ toBase64 rest"

section \<open>Input normalisation in base64 mode\<close>

text \<open>
  Every action resolves the base64 input mode with the same two lines:
  \<^verbatim>\<open>
  if (docContent.includes(',')) {
      docContent = docContent.split(',')[1];
  }
  \<close>
\<close>

definition normalize_base64Content :: "string \<Rightarrow> string option" where
  "normalize_base64Content docContent =
     (if str_includes docContent CHR '',''
      then js_index (str_split docContent CHR '','') 1
      else Some docContent)"

text \<open>A string of base64 text: letters of the base64 alphabet and the padding sign.\<close>

definition is_base64_text :: "string \<Rightarrow> bool" where
  "is_base64_text s = list_all (\<lambda>c. c \<in> set b64_alphabet \<or> c = CHR ''='') s"

text \<open>The data-URL form of a payload: \<open>data:<mime>;base64,<payload>\<close>.\<close>

definition data_url :: "string \<Rightarrow> string \<Rightarrow> string" where
  "data_url mime payload = ''data:'' @ mime @ '';base64,'' @ payload"

text \<open>What remains of a string once everything up to and including its first comma is
  removed (the reading of the normalisation that keeps the whole remainder).\<close>

definition after_first_comma :: "string \<Rightarrow> string" where
  "after_first_comma s = tl (dropWhile (\<lambda>c. c \<noteq> CHR '','') s)"

section \<open>Values, errors and the host runtime\<close>

text \<open>
  JavaScript values as far as the actions handle them: what the remote API returns, the
  request payload, the metadata envelope. An object is an association list in insertion
  order; numbers are integers here (the code only produces counts).
\<close>

datatype jsval =
    JUndefined
  | JNull
  | JBool bool
  | JNum int
  | JStr string
  | JArr "jsval list"
  | JObj "(string \<times> jsval) list"

text \<open>\<open>if (v)\<close>: the falsy values are \<open>undefined\<close>, \<open>null\<close>, \<open>false\<close>, \<open>0\<close>
  and the empty string.\<close>

fun truthy :: "jsval \<Rightarrow> bool" where
  "truthy JUndefined = False"
| "truthy JNull = False"
| "truthy (JBool b) = b"
| "truthy (JNum n) = (n \<noteq> 0)"
| "truthy (JStr s) = (s \<noteq> [])"
| "truthy (JArr xs) = True"
| "truthy (JObj kvs) = True"

text \<open>\<open>{...v}\<close>: the own enumerable properties of a value. Arrays and strings spread
  to their indices, the other primitives to nothing.\<close>

fun spread :: "jsval \<Rightarrow> (string \<times> jsval) list" where
  "spread (JObj kvs) = kvs"
| "spread (JArr xs) = zip (map string_of_nat [0..<length xs]) xs"
| "spread (JStr s) = zip (map string_of_nat [0..<length s]) (map (\<lambda>c. JStr [c]) s)"
| "spread v = []"

text \<open>\<open>obj.k = v\<close> and \<open>obj.k\<close> on association lists: an assignment replaces the value
  of a key that is there and appends a new key otherwise.\<close>

definition set_prop :: "(string \<times> jsval) list \<Rightarrow> string \<Rightarrow> jsval \<Rightarrow> (string \<times> jsval) list" where
  "set_prop obj k v = AList.update k v obj"

definition get_prop :: "jsval \<Rightarrow> string \<Rightarrow> jsval" where
  "get_prop v k =
     (case v of
        JObj kvs \<Rightarrow> (case map_of kvs k of None \<Rightarrow> JUndefined | Some x \<Rightarrow> x)
      | _ \<Rightarrow> JUndefined)"

text \<open>
  What a helper rejects with: the catch blocks of the actions read the properties
  \<open>code\<close>, \<open>statusCode\<close> and \<open>message\<close> of the caught value; \<open>None\<close> is an absent
  property.
\<close>

record err_obj =
  err_code :: "string option"
  err_statusCode :: "nat option"
  err_message :: "string option"

text \<open>The values an action or the dispatcher can throw.\<close>

datatype thrown =
    Error string
  | NodeOperationError string
  | NodeApiError err_obj
  | TypeError string
  | HostError string
  | Rejected err_obj

text \<open>An item of the node's input, and an item of its output (\<open>INodeExecutionData\<close>).
  Of the binary properties of an input item the code only tests which ones are there.\<close>

record input_item =
  item_json :: jsval
  item_binary :: "(string \<Rightarrow> bool) option"

record exec_data =
  json :: jsval
  error :: "thrown option"
  pairedItem :: "nat option"

text \<open>
  The host runtime (\<open>this: IExecuteFunctions\<close>) and the JavaScript runtime, as the
  functions the code calls. Parameters arrive resolved and typed, with the default of the
  call applied. What a call of the async client returns or rejects with
  (\<open>pdf4meAsyncRequest_call\<close>) and \<open>JSON.parse\<close> are taken as given: the first lives
  in \<open>GenericFunctions\<close>, the second in the language. The requests
  of one item's processing are indexed by the item, so that two items may see different
  answers to the same request.
  \<^item> \<open>stringParameter name i\<close>, \<open>booleanParameter name i\<close>: \<open>getNodeParameter(name, i)\<close>
    for a string and a boolean parameter;
  \<^item> \<open>fieldsParameter name i\<close>: the \<open>field\<close> array of a fixed collection, each entry
    with its string properties, \<open>None\<close> when the collection has no \<open>field\<close>;
  \<^item> \<open>getBinaryDataBuffer i p\<close>, \<open>httpRequestWithAuthentication i url\<close> (a GET with
    \<open>encoding: 'arraybuffer'\<close>): the bytes, or what the helper rejects with;
  \<^item> \<open>toISOString_now i\<close>: \<open>new Date().toISOString()\<close> at the time item \<open>i\<close> is
    processed.
\<close>

record host =
  getInputData :: "nat \<Rightarrow> thrown + input_item list"
  stringParameter :: "string \<Rightarrow> nat \<Rightarrow> string"
  booleanParameter :: "string \<Rightarrow> nat \<Rightarrow> bool"
  fieldsParameter :: "string \<Rightarrow> nat \<Rightarrow> (string \<times> string) list list option"
  continueOnFail :: bool
  getBinaryDataBuffer :: "nat \<Rightarrow> string \<Rightarrow> thrown + byte list"
  httpRequestWithAuthentication :: "nat \<Rightarrow> string \<Rightarrow> err_obj + byte list"
  pdf4meAsyncRequest_call :: "nat \<Rightarrow> string \<Rightarrow> jsval \<Rightarrow> err_obj + jsval"
  JSON_parse :: "string \<Rightarrow> string + jsval"
  toISOString_now :: "nat \<Rightarrow> string"

text \<open>
  An action is an effectful computation: it issues network requests and then returns
  or throws. The requests are recorded in the order they are issued.
\<close>

datatype net_event =
    HttpGet string
  | ApiRequest string jsval

type_synonym 'a result = "net_event list \<times> (thrown + 'a)"

definition throw :: "thrown \<Rightarrow> 'a result" where
  "throw e = ([], Inl e)"

definition ret :: "'a \<Rightarrow> 'a result" where
  "ret x = ([], Inr x)"

definition bind :: "'a result \<Rightarrow> ('a \<Rightarrow> 'b result) \<Rightarrow> 'b result" where
  "bind m f =
     (case m of
        (tr, Inl e) \<Rightarrow> (tr, Inl e)
      | (tr, Inr x) \<Rightarrow> (case f x of (tr', r) \<Rightarrow> (tr @ tr', r)))"

section \<open>The steps the actions share\<close>

text \<open>
  The eight actions are the same function up to their literals. The blocks below occur
  verbatim in each \<open>execute\<close>; the pieces that vary (the error class, the name of the URL
  parameter, the messages) are arguments.
\<close>

definition apostrophe :: char where
  "apostrophe = CHR 0x27"

text \<open>
  Resolving the input mode to base64 text. The error class is \<open>Error\<close> in some actions
  and \<open>NodeOperationError\<close> in others. Reading \<open>item[0].binary\<close> of an empty item
  list is a \<open>TypeError\<close> (its message is the engine's and is abridged here). A helper
  that rejects makes the action reject with the same value.
\<close>

definition resolve_docContent ::
  "host \<Rightarrow> nat \<Rightarrow> (string \<Rightarrow> thrown) \<Rightarrow> string \<Rightarrow> string \<Rightarrow> string option result" where
  "resolve_docContent h index mkError inputDataType urlParameter =
     (if inputDataType = ''binaryData'' then
        (let binaryPropertyName = stringParameter h ''binaryPropertyName'' index in
         case getInputData h index of
           Inl e \<Rightarrow> throw e
         | Inr item \<Rightarrow>
             (case js_index item 0 of
                None \<Rightarrow> throw (TypeError ''Cannot read properties of undefined (reading binary)'')
              | Some item0 \<Rightarrow>
                  if (case item_binary item0 of
                        None \<Rightarrow> True
                      | Some binary \<Rightarrow> \<not> binary binaryPropertyName)
                  then throw (mkError (''No binary data found in property ''
                                @ [apostrophe] @ binaryPropertyName @ [apostrophe]))
                  else (case getBinaryDataBuffer h index binaryPropertyName of
                          Inl e \<Rightarrow> throw e
                        | Inr buffer \<Rightarrow> ret (Some (toBase64 buffer)))))
      else if inputDataType = ''base64'' then
        ret (normalize_base64Content (stringParameter h ''base64Content'' index))
      else if inputDataType = ''url'' then
        (let url = stringParameter h urlParameter index in
         case httpRequestWithAuthentication h index url of
           Inl e \<Rightarrow> ([HttpGet url], Inl (Rejected e))
         | Inr response \<Rightarrow> ([HttpGet url], Inr (Some (toBase64 response))))
      else throw (mkError (''Unsupported input data type: '' @ inputDataType)))"

text \<open>\<open>if (!docContent || docContent.trim() === '') throw ...\<close>\<close>

definition require_content :: "(string \<Rightarrow> thrown) \<Rightarrow> string \<Rightarrow> string option \<Rightarrow> string result" where
  "require_content mkError msg docContent =
     (case docContent of
        None \<Rightarrow> throw (mkError msg)
      | Some s \<Rightarrow> if s = [] \<or> trim s = [] then throw (mkError msg) else ret s)"

text \<open>\<open>if (!docContent.startsWith('JVBERi0x')) throw ...\<close>\<close>

definition require_pdf_header :: "(string \<Rightarrow> thrown) \<Rightarrow> string \<Rightarrow> unit result" where
  "require_pdf_header mkError docContent =
     (if \<not> startsWith docContent ''JVBERi0x''
      then throw (mkError (''Invalid PDF content. Base64 should start with ''
                    @ [apostrophe] @ ''JVBERi0x'' @ [apostrophe]
                    @ '' (PDF header), but starts with: '' @ substring0 docContent 20))
      else ret ())"

text \<open>\<open>(customFieldsData.field as Array<...>) || []\<close>\<close>

definition fields_or_empty :: "(string \<times> string) list list option \<Rightarrow> (string \<times> string) list list" where
  "fields_or_empty field = (case field of None \<Rightarrow> [] | Some fs \<Rightarrow> fs)"

text \<open>\<open>customFieldsList.forEach((field) => { if (field.key) keys.push(field.key); })\<close>,
  for the property \<open>key\<close> or \<open>name\<close>.\<close>

definition collect_truthy :: "string \<Rightarrow> (string \<times> string) list list \<Rightarrow> string list" where
  "collect_truthy prop customFieldsList =
     concat (map (\<lambda>field. case map_of field prop of
                             None \<Rightarrow> []
                           | Some v \<Rightarrow> if v \<noteq> [] then [v] else [])
                 customFieldsList)"

text \<open>\<open>error.message || fallback\<close>, and a property inside a template literal.\<close>

definition message_or :: "err_obj \<Rightarrow> string \<Rightarrow> string" where
  "message_or e fallback =
     (case err_message e of None \<Rightarrow> fallback | Some m \<Rightarrow> if m = [] then fallback else m)"

definition show_code :: "err_obj \<Rightarrow> string" where
  "show_code e = (case err_code e of None \<Rightarrow> ''undefined'' | Some c \<Rightarrow> c)"

definition debug_suffix :: "string \<Rightarrow> string \<Rightarrow> string" where
  "debug_suffix docContent docName =
     ''Debug: docLength='' @ string_of_nat (length docContent) @ '', docName='' @ docName"

text \<open>The last branch of both catch blocks: an error without a (truthy) status code.\<close>

definition connection_error :: "(string \<Rightarrow> thrown) \<Rightarrow> string \<Rightarrow> string \<Rightarrow> err_obj \<Rightarrow> thrown" where
  "connection_error mkError docContent docName e =
     mkError (''Connection error: '' @ message_or e ''Unknown connection issue''
              @ '' | '' @ debug_suffix docContent docName
              @ '', errorCode='' @ show_code e)"

text \<open>The catch block around the request, in the actions that throw plain \<open>Error\<close>s.\<close>

definition request_error_plain :: "string \<Rightarrow> string \<Rightarrow> err_obj \<Rightarrow> thrown" where
  "request_error_plain docContent docName e =
     (if err_code e = Some ''ECONNRESET'' then
        Error (''Connection was reset. '' @ debug_suffix docContent docName)
      else if err_statusCode e = Some 500 then
        Error (''PDF4Me server error (500): ''
               @ message_or e ''The service was not able to process your request.''
               @ '' | '' @ debug_suffix docContent docName)
      else if err_statusCode e = Some 404 then
        Error (''API endpoint not found. '' @ debug_suffix docContent docName)
      else if err_statusCode e = Some 401 then
        Error (''Authentication failed. '' @ debug_suffix docContent docName)
      else if err_statusCode e = Some 403 then
        Error (''Access denied. '' @ debug_suffix docContent docName)
      else if err_statusCode e = Some 429 then
        Error (''Rate limit exceeded. '' @ debug_suffix docContent docName)
      else
        (case err_statusCode e of
           None \<Rightarrow> connection_error Error docContent docName e
         | Some n \<Rightarrow>
             if n \<noteq> 0 then
               Error (''PDF4Me API error ('' @ string_of_nat n @ ''): ''
                      @ message_or e ''Unknown error''
                      @ '' | '' @ debug_suffix docContent docName)
             else connection_error Error docContent docName e))"

text \<open>The catch block around the request, in the actions that throw the host's error
  classes.\<close>

definition request_error_node :: "string \<Rightarrow> string \<Rightarrow> err_obj \<Rightarrow> thrown" where
  "request_error_node docContent docName e =
     (case err_statusCode e of
        None \<Rightarrow> connection_error NodeOperationError docContent docName e
      | Some n \<Rightarrow>
          if n \<noteq> 0 then NodeApiError e
          else connection_error NodeOperationError docContent docName e)"

text \<open>\<open>try { result = await pdf4meAsyncRequest.call(this, path, payload) } catch (error) {...}\<close>\<close>

definition call_api :: "host \<Rightarrow> nat \<Rightarrow> string \<Rightarrow> jsval \<Rightarrow> (err_obj \<Rightarrow> thrown) \<Rightarrow> jsval result" where
  "call_api h index path payload on_error =
     (case pdf4meAsyncRequest_call h index path payload of
        Inl e \<Rightarrow> ([ApiRequest path payload], Inl (on_error e))
      | Inr result \<Rightarrow> ([ApiRequest path payload], Inr result))"

text \<open>\<open>typeof result === 'string' ? JSON.parse(result) : result\<close>, with the catch block
  around it.\<close>

definition parse_result :: "host \<Rightarrow> (string \<Rightarrow> thrown) \<Rightarrow> jsval \<Rightarrow> jsval result" where
  "parse_result h mkError result =
     (case result of
        JStr s \<Rightarrow> (case JSON_parse h s of
                     Inl m \<Rightarrow> throw (mkError (''Failed to parse API response: '' @ m))
                   | Inr v \<Rightarrow> ret v)
      | _ \<Rightarrow> ret result)"

text \<open>The five entries every metadata envelope starts with.\<close>

definition base_metadata :: "host \<Rightarrow> nat \<Rightarrow> string \<Rightarrow> string \<Rightarrow> string \<Rightarrow> (string \<times> jsval) list" where
  "base_metadata h index msg docName operation =
     [(''success'', JBool True),
      (''message'', JStr msg),
      (''processingTimestamp'', JStr (toISOString_now h index)),
      (''sourceFileName'', JStr docName),
      (''operation'', JStr operation)]"

text \<open>\<open>{ json: { ...processedData, _metadata: metadata } }\<close>, with or without
  \<open>pairedItem: { item: index }\<close>.\<close>

definition output_item :: "jsval \<Rightarrow> (string \<times> jsval) list \<Rightarrow> nat option \<Rightarrow> exec_data" where
  "output_item processedData metadata paired =
     \<lparr>json = JObj (set_prop (spread processedData) ''_metadata'' (JObj metadata)),
      error = None, pairedItem = paired\<rparr>"

section \<open>The actions\<close>

text \<open>
  One definition per \<open>execute\<close> function of the action modules, each in the order of its
  source: read the parameters, resolve the input, validate, build the payload, call the
  async client, parse, attach the metadata.
\<close>

text \<open>\<open>actions/aiInvoiceParser.ts\<close>: custom fields are read by \<open>name\<close> and sent as \<open>customFieldKeys\<close>.\<close>

definition aiInvoiceParser_execute :: "host \<Rightarrow> nat \<Rightarrow> exec_data list result" where
  "aiInvoiceParser_execute h index =
     (let inputDataType = stringParameter h ''inputDataType'' index;
          docName = stringParameter h ''docName'' index
      in bind (resolve_docContent h index Error inputDataType ''invoiceUrl'') (\<lambda>resolved.
         bind (require_content Error ''Invoice content is required'' resolved) (\<lambda>docContent.
         bind (require_pdf_header Error docContent) (\<lambda>_.
         let customFieldsList = fields_or_empty (fieldsParameter h ''customFields'' index);
             customFieldNames = collect_truthy ''name'' customFieldsList;
             payload = JObj ([(''docName'', JStr docName),
                              (''docContent'', JStr docContent)]
                             @ (if length customFieldNames > 0
                                then [(''customFieldKeys'', JArr (map JStr customFieldNames))]
                                else [])
                             @ [(''IsAsync'', JBool True)])
         in bind (call_api h index ''/api/v2/ProcessInvoice'' payload (request_error_plain docContent docName)) (\<lambda>result.
            if truthy result then
              bind (parse_result h Error result) (\<lambda>processedData.
                let metadata0 = base_metadata h index ''Invoice processed successfully using AI'' docName ''aiInvoiceParser'';
                    metadata = (if length customFieldsList > 0
                                then set_prop (set_prop metadata0 ''customFieldsUsed''
                                        (JArr (map (\<lambda>f. case map_of f ''name'' of
                                                          None \<Rightarrow> JUndefined
                                                        | Some v \<Rightarrow> JStr v) customFieldsList)))
                                       ''customFieldsCount'' (JNum (int (length customFieldsList)))
                                else metadata0)
                in ret [output_item processedData metadata None])
            else throw (Error ''No response data received from PDF4ME AI Invoice Processing API''))))))"

text \<open>\<open>actions/aiProcessContract.ts\<close>, the module the node imports: the host's error classes, and \<open>pairedItem\<close> on the result.\<close>

definition aiProcessContract_execute :: "host \<Rightarrow> nat \<Rightarrow> exec_data list result" where
  "aiProcessContract_execute h index =
     (let inputDataType = stringParameter h ''inputDataType'' index;
          docName = stringParameter h ''docName'' index
      in bind (resolve_docContent h index NodeOperationError inputDataType ''contractUrl'') (\<lambda>resolved.
         bind (require_content NodeOperationError ''Contract content is required'' resolved) (\<lambda>docContent.
         bind (require_pdf_header NodeOperationError docContent) (\<lambda>_.
         let payload = JObj [(''docContent'', JStr docContent),
                             (''docName'', JStr docName),
                             (''IsAsync'', JBool True)]
         in bind (call_api h index ''/api/v2/ProcessContract'' payload (request_error_node docContent docName)) (\<lambda>result.
            if truthy result then
              bind (parse_result h NodeOperationError result) (\<lambda>processedData.
                ret [output_item processedData
                       (base_metadata h index ''Contract processed successfully using AI'' docName ''aiProcessContract'') (Some index)])
            else throw (NodeOperationError ''No response data received from PDF4ME AI Contract Processing API''))))))"

text \<open>The second copy of the contract action in the repository, which throws plain \<open>Error\<close>s and sets no \<open>pairedItem\<close>.\<close>

definition aiProcessContract_plain_execute :: "host \<Rightarrow> nat \<Rightarrow> exec_data list result" where
  "aiProcessContract_plain_execute h index =
     (let inputDataType = stringParameter h ''inputDataType'' index;
          docName = stringParameter h ''docName'' index
      in bind (resolve_docContent h index Error inputDataType ''contractUrl'') (\<lambda>resolved.
         bind (require_content Error ''Contract content is required'' resolved) (\<lambda>docContent.
         bind (require_pdf_header Error docContent) (\<lambda>_.
         let payload = JObj [(''docContent'', JStr docContent),
                             (''docName'', JStr docName),
                             (''IsAsync'', JBool True)]
         in bind (call_api h index ''/api/v2/ProcessContract'' payload (request_error_plain docContent docName)) (\<lambda>result.
            if truthy result then
              bind (parse_result h Error result) (\<lambda>processedData.
                ret [output_item processedData
                       (base_metadata h index ''Contract processed successfully using AI'' docName ''aiProcessContract'') None])
            else throw (Error ''No response data received from PDF4ME AI Contract Processing API''))))))"

text \<open>The health card action: no PDF header check, no optional fields.\<close>

definition aiProcessHealthCard_execute :: "host \<Rightarrow> nat \<Rightarrow> exec_data list result" where
  "aiProcessHealthCard_execute h index =
     (let inputDataType = stringParameter h ''inputDataType'' index;
          docName = stringParameter h ''docName'' index
      in bind (resolve_docContent h index Error inputDataType ''healthCardUrl'') (\<lambda>resolved.
         bind (require_content Error ''Health card content is required'' resolved) (\<lambda>docContent.
         let payload = JObj [(''docContent'', JStr docContent),
                             (''docName'', JStr docName),
                             (''IsAsync'', JBool True)]
         in bind (call_api h index ''/api/v2/ProcessHealthCard'' payload (request_error_plain docContent docName)) (\<lambda>result.
            if truthy result then
              bind (parse_result h Error result) (\<lambda>processedData.
                ret [output_item processedData
                       (base_metadata h index ''Health card processed successfully using AI'' docName ''aiProcessHealthCard'') None])
            else throw (Error ''No response data received from PDF4ME AI Health Card Processing API'')))))"

text \<open>\<open>actions/aiProcessMortgageDocument.ts\<close>: an optional document type and custom field keys.\<close>

definition aiProcessMortgageDocument_execute :: "host \<Rightarrow> nat \<Rightarrow> exec_data list result" where
  "aiProcessMortgageDocument_execute h index =
     (let inputDataType = stringParameter h ''inputDataType'' index;
          docName = stringParameter h ''docName'' index;
          documentType = stringParameter h ''documentType'' index;
          customFieldsData = fieldsParameter h ''customFields'' index
      in bind (resolve_docContent h index Error inputDataType ''mortgageDocumentUrl'') (\<lambda>resolved.
         bind (require_content Error ''Mortgage document content is required'' resolved) (\<lambda>docContent.
         bind (require_pdf_header Error docContent) (\<lambda>_.
         let customFieldsList = fields_or_empty customFieldsData;
             customFieldKeys = collect_truthy ''key'' customFieldsList;
             payload0 = [(''docName'', JStr docName),
                         (''docContent'', JStr docContent),
                         (''IsAsync'', JBool True)];
             payload1 = (if documentType \<noteq> [] \<and> trim documentType \<noteq> []
                         then set_prop payload0 ''documentType'' (JStr (trim documentType))
                         else payload0);
             payload = JObj (if length customFieldKeys > 0
                             then set_prop payload1 ''CustomFieldKeys'' (JArr (map JStr customFieldKeys))
                             else payload1)
         in bind (call_api h index ''/api/v2/ProcessMortgageDocument'' payload (request_error_plain docContent docName)) (\<lambda>result.
            if truthy result then
              bind (parse_result h Error result) (\<lambda>processedData.
                let metadata0 = base_metadata h index ''Mortgage document processed successfully using AI'' docName ''aiProcessMortgageDocument'';
                    metadata1 = (if documentType \<noteq> [] \<and> trim documentType \<noteq> []
                                 then set_prop metadata0 ''documentType'' (JStr documentType)
                                 else metadata0);
                    metadata = (if length customFieldKeys > 0
                                then set_prop (set_prop metadata1 ''customFieldsUsed''
                                        (JArr (map JStr customFieldKeys)))
                                       ''customFieldsCount'' (JNum (int (length customFieldKeys)))
                                else metadata1)
                in ret [output_item processedData metadata None])
            else throw (Error ''No response data received from PDF4ME AI Mortgage Document Processing API''))))))"

text \<open>The bank cheque action: PDF header check, custom field keys, the host's error classes.\<close>

definition aiProcessBankCheque_execute :: "host \<Rightarrow> nat \<Rightarrow> exec_data list result" where
  "aiProcessBankCheque_execute h index =
     (let inputDataType = stringParameter h ''inputDataType'' index;
          docName = stringParameter h ''docName'' index;
          customFieldsData = fieldsParameter h ''customFields'' index
      in bind (resolve_docContent h index NodeOperationError inputDataType ''bankChequeUrl'') (\<lambda>resolved.
         bind (require_content NodeOperationError ''Bank cheque content is required'' resolved) (\<lambda>docContent.
         bind (require_pdf_header NodeOperationError docContent) (\<lambda>_.
         let customFieldsList = fields_or_empty customFieldsData;
             customFieldKeys = collect_truthy ''key'' customFieldsList;
             payload0 = [(''docName'', JStr docName),
                         (''docContent'', JStr docContent),
                         (''IsAsync'', JBool True)];
             payload = JObj (if length customFieldKeys > 0
                             then set_prop payload0 ''CustomFieldKeys'' (JArr (map JStr customFieldKeys))
                             else payload0)
         in bind (call_api h index ''/api/v2/ProcessBankCheque'' payload (request_error_node docContent docName)) (\<lambda>result.
            if truthy result then
              bind (parse_result h NodeOperationError result) (\<lambda>processedData.
                let metadata0 = base_metadata h index ''Bank cheque processed successfully using AI'' docName ''aiProcessBankCheque'';
                    metadata = (if length customFieldKeys > 0
                                then set_prop (set_prop metadata0 ''customFieldsUsed''
                                        (JArr (map JStr customFieldKeys)))
                                       ''customFieldsCount'' (JNum (int (length customFieldKeys)))
                                else metadata0)
                in ret [output_item processedData metadata (Some index)])
            else throw (NodeOperationError ''No response data received from PDF4ME AI Bank Cheque Processing API''))))))"

text \<open>The credit card action: no PDF header check, custom field keys.\<close>

definition aiProcessCreditCard_execute :: "host \<Rightarrow> nat \<Rightarrow> exec_data list result" where
  "aiProcessCreditCard_execute h index =
     (let inputDataType = stringParameter h ''inputDataType'' index;
          docName = stringParameter h ''docName'' index;
          customFieldsData = fieldsParameter h ''customFields'' index
      in bind (resolve_docContent h index Error inputDataType ''creditCardUrl'') (\<lambda>resolved.
         bind (require_content Error ''Credit card content is required'' resolved) (\<lambda>docContent.
         let customFieldsList = fields_or_empty customFieldsData;
             customFieldKeys = collect_truthy ''key'' customFieldsList;
             payload0 = [(''docName'', JStr docName),
                         (''docContent'', JStr docContent),
                         (''IsAsync'', JBool True)];
             payload = JObj (if length customFieldKeys > 0
                             then set_prop payload0 ''CustomFieldKeys'' (JArr (map JStr customFieldKeys))
                             else payload0)
         in bind (call_api h index ''/api/v2/ProcessCreditCard'' payload (request_error_plain docContent docName)) (\<lambda>result.
            if truthy result then
              bind (parse_result h Error result) (\<lambda>processedData.
                let metadata0 = base_metadata h index ''Credit card processed successfully using AI'' docName ''aiProcessCreditCard'';
                    metadata = (if length customFieldKeys > 0
                                then set_prop (set_prop metadata0 ''customFieldsUsed''
                                        (JArr (map JStr customFieldKeys)))
                                       ''customFieldsCount'' (JNum (int (length customFieldKeys)))
                                else metadata0)
                in ret [output_item processedData metadata None])
            else throw (Error ''No response data received from PDF4ME AI Credit Card Processing API'')))))"

text \<open>The pay stub action: no PDF header check, custom field keys, the host's error classes.\<close>

definition aiProcessPayStub_execute :: "host \<Rightarrow> nat \<Rightarrow> exec_data list result" where
  "aiProcessPayStub_execute h index =
     (let inputDataType = stringParameter h ''inputDataType'' index;
          docName = stringParameter h ''docName'' index;
          customFieldsData = fieldsParameter h ''customFields'' index
      in bind (resolve_docContent h index NodeOperationError inputDataType ''payStubUrl'') (\<lambda>resolved.
         bind (require_content NodeOperationError ''Pay stub content is required'' resolved) (\<lambda>docContent.
         let customFieldsList = fields_or_empty customFieldsData;
             customFieldKeys = collect_truthy ''key'' customFieldsList;
             payload0 = [(''docName'', JStr docName),
                         (''docContent'', JStr docContent),
                         (''IsAsync'', JBool True)];
             payload = JObj (if length customFieldKeys > 0
                             then set_prop payload0 ''CustomFieldKeys'' (JArr (map JStr customFieldKeys))
                             else payload0)
         in bind (call_api h index ''/api/v2/ProcessPayStub'' payload (request_error_node docContent docName)) (\<lambda>result.
            if truthy result then
              bind (parse_result h NodeOperationError result) (\<lambda>processedData.
                let metadata0 = base_metadata h index ''Pay stub processed successfully using AI'' docName ''aiProcessPayStub'';
                    metadata = (if length customFieldKeys > 0
                                then set_prop (set_prop metadata0 ''customFieldsUsed''
                                        (JArr (map JStr customFieldKeys)))
                                       ''customFieldsCount'' (JNum (int (length customFieldKeys)))
                                else metadata0)
                in ret [output_item processedData metadata (Some index)])
            else throw (NodeOperationError ''No response data received from PDF4ME AI Pay Stub Processing API'')))))"

text \<open>The marriage certificate action: no PDF header check, an optional verification flag and custom field keys.\<close>

definition aiProcessMarriageCertificate_execute :: "host \<Rightarrow> nat \<Rightarrow> exec_data list result" where
  "aiProcessMarriageCertificate_execute h index =
     (let inputDataType = stringParameter h ''inputDataType'' index;
          docName = stringParameter h ''docName'' index;
          verifyAuthenticity = booleanParameter h ''verifyAuthenticity'' index;
          customFieldsData = fieldsParameter h ''customFields'' index
      in bind (resolve_docContent h index Error inputDataType ''marriageCertificateUrl'') (\<lambda>resolved.
         bind (require_content Error ''Marriage certificate content is required'' resolved) (\<lambda>docContent.
         let customFieldsList = fields_or_empty customFieldsData;
             customFieldKeys = collect_truthy ''key'' customFieldsList;
             payload0 = [(''docName'', JStr docName),
                         (''docContent'', JStr docContent),
                         (''IsAsync'', JBool True)];
             payload1 = (if verifyAuthenticity
                         then set_prop payload0 ''VerifyAuthenticity'' (JBool verifyAuthenticity)
                         else payload0);
             payload = JObj (if length customFieldKeys > 0
                             then set_prop payload1 ''CustomFieldKeys'' (JArr (map JStr customFieldKeys))
                             else payload1)
         in bind (call_api h index ''/api/v2/ProcessMarriageCertificate'' payload (request_error_plain docContent docName)) (\<lambda>result.
            if truthy result then
              bind (parse_result h Error result) (\<lambda>processedData.
                let metadata0 = base_metadata h index ''Marriage certificate processed successfully using AI'' docName ''aiProcessMarriageCertificate'';
                    metadata1 = (if verifyAuthenticity
                                 then set_prop metadata0 ''verifyAuthenticity'' (JBool verifyAuthenticity)
                                 else metadata0);
                    metadata = (if length customFieldKeys > 0
                                then set_prop (set_prop metadata1 ''customFieldsUsed''
                                        (JArr (map JStr customFieldKeys)))
                                       ''customFieldsCount'' (JNum (int (length customFieldKeys)))
                                else metadata1)
                in ret [output_item processedData metadata None])
            else throw (Error ''No response data received from PDF4ME AI Marriage Certificate Processing API'')))))"

section \<open>The dispatcher\<close>

text \<open>
  \<open>ActionConstants\<close> is defined in \<open>GenericFunctions\<close>; the eight operation names are
  taken as given.
\<close>

record action_constants =
  AiInvoiceParser :: string
  AiProcessHealthCard :: string
  AiProcessContract :: string
  AiProcessMortgageDocument :: string
  AiProcessBankCheque :: string
  AiProcessCreditCard :: string
  AiProcessPayStub :: string
  AiProcessMarriageCertificate :: string

text \<open>The body of the \<open>try\<close> block: the chain of comparisons has no final \<open>else\<close>, so
  an operation that matches none of the names pushes nothing.\<close>

definition dispatch :: "action_constants \<Rightarrow> host \<Rightarrow> nat \<Rightarrow> exec_data list result" where
  "dispatch ac h i =
     (let action = stringParameter h ''operation'' i in
      if action = AiInvoiceParser ac then aiInvoiceParser_execute h i
      else if action = AiProcessHealthCard ac then aiProcessHealthCard_execute h i
      else if action = AiProcessContract ac then aiProcessContract_execute h i
      else if action = AiProcessMortgageDocument ac then aiProcessMortgageDocument_execute h i
      else if action = AiProcessBankCheque ac then aiProcessBankCheque_execute h i
      else if action = AiProcessCreditCard ac then aiProcessCreditCard_execute h i
      else if action = AiProcessPayStub ac then aiProcessPayStub_execute h i
      else if action = AiProcessMarriageCertificate ac then aiProcessMarriageCertificate_execute h i
      else ret [])"

text \<open>\<open>{ json: this.getInputData(i)[0].json, error: err, pairedItem: { item: i } }\<close>\<close>

definition error_item :: "host \<Rightarrow> nat \<Rightarrow> thrown \<Rightarrow> thrown + exec_data" where
  "error_item h i err =
     (case getInputData h i of
        Inl e \<Rightarrow> Inl e
      | Inr xs \<Rightarrow>
          (case js_index xs 0 of
             None \<Rightarrow> Inl (TypeError ''Cannot read properties of undefined (reading json)'')
           | Some x \<Rightarrow> Inr \<lparr>json = item_json x, error = Some err, pairedItem = Some i\<rparr>))"

definition after :: "net_event list \<Rightarrow> 'a result \<Rightarrow> 'a result" where
  "after tr m = (tr @ fst m, snd m)"

text \<open>The \<open>for\<close> loop of \<open>Pdf4me.execute\<close>, from item \<open>i\<close> on.\<close>

function execute_from ::
  "action_constants \<Rightarrow> host \<Rightarrow> input_item list \<Rightarrow> nat \<Rightarrow> exec_data list \<Rightarrow> exec_data list result" where
  "execute_from ac h items i operationResult =
     (if i < length items then
        (case dispatch ac h i of
           (tr, Inr out) \<Rightarrow> after tr (execute_from ac h items (Suc i) (operationResult @ out))
         | (tr, Inl err) \<Rightarrow>
             if continueOnFail h then
               (case error_item h i err of
                  Inl e \<Rightarrow> (tr, Inl e)
                | Inr r \<Rightarrow> after tr (execute_from ac h items (Suc i) (operationResult @ [r])))
             else (tr, Inl err))
      else ret operationResult)"
  by pat_completeness auto
termination
  by (relation "measure (\<lambda>(ac, h, items, i, operationResult). length items - i)") auto

declare execute_from.simps [simp del]

definition execute :: "action_constants \<Rightarrow> host \<Rightarrow> exec_data list list result" where
  "execute ac h =
     (case getInputData h 0 of
        Inl e \<Rightarrow> throw e
      | Inr items \<Rightarrow> bind (execute_from ac h items 0 []) (\<lambda>operationResult. ret [operationResult]))"

text \<open>The execute functions of the repository, by name.\<close>

datatype action =
    InvoiceParser
  | Contract
  | ContractPlain
  | HealthCard
  | MortgageDocument
  | BankCheque
  | CreditCard
  | PayStub
  | MarriageCertificate

fun run_action :: "action \<Rightarrow> host \<Rightarrow> nat \<Rightarrow> exec_data list result" where
  "run_action InvoiceParser = aiInvoiceParser_execute"
| "run_action Contract = aiProcessContract_execute"
| "run_action ContractPlain = aiProcessContract_plain_execute"
| "run_action HealthCard = aiProcessHealthCard_execute"
| "run_action MortgageDocument = aiProcessMortgageDocument_execute"
| "run_action BankCheque = aiProcessBankCheque_execute"
| "run_action CreditCard = aiProcessCreditCard_execute"
| "run_action PayStub = aiProcessPayStub_execute"
| "run_action MarriageCertificate = aiProcessMarriageCertificate_execute"

section \<open>The asynchronous request client\<close>

text \<open>
  Modelled from the spec: the replies of the remote endpoint. \<open>GenericFunctions\<close>, the
  module of \<open>pdf4meAsyncRequest\<close>, is not among the sources; the client is written
  here from section 4.1 of the specification. A reply has a status code, a body and the
  polling location it names (opaque to the client).
\<close>

record http_reply =
  status :: nat
  body :: jsval
  location :: string

text \<open>
  Modelled from the spec: the HTTP transport and the clock the client depends on. A request
  either fails in the transport (with an error code) or brings a reply; the \<open>k\<close>-th poll
  takes \<open>latency k\<close> units of time.
\<close>

record transport =
  submit :: "string \<Rightarrow> jsval \<Rightarrow> string + http_reply"
  poll :: "string \<Rightarrow> nat \<Rightarrow> string + http_reply"
  latency :: "nat \<Rightarrow> nat"

text \<open>
  Modelled from the spec: the three kinds of failure of the client (remote API error
  with status and body, timeout, transport error with its code).
\<close>

datatype async_error =
    ApiError nat jsval
  | TimeoutError
  | TransportError string

fun is_timeout :: "async_error \<Rightarrow> bool" where
  "is_timeout TimeoutError = True"
| "is_timeout e = False"

fun is_api_error :: "async_error \<Rightarrow> bool" where
  "is_api_error (ApiError s b) = True"
| "is_api_error e = False"

text \<open>
  Modelled from the spec: the poll phase. While the deadline \<open>D\<close> has not elapsed the
  client issues a GET against the polling location; a 202 reply makes it wait the
  interval \<open>I\<close> and retry, another 2xx reply ends polling with the body, any other
  status or a transport failure ends it with that error. The result carries the number
  of polls issued. With \<open>I = 0\<close> and no latency the loop need not end, hence the option.
\<close>

partial_function (option) poll_until_done ::
  "transport \<Rightarrow> nat \<Rightarrow> nat \<Rightarrow> string \<Rightarrow> nat \<Rightarrow> nat \<Rightarrow> (nat \<times> (async_error + jsval)) option" where
  "poll_until_done t D I loc elapsed polls =
     (if D \<le> elapsed then Some (polls, Inl TimeoutError)
      else (case poll t loc polls of
              Inl code \<Rightarrow> Some (Suc polls, Inl (TransportError code))
            | Inr r \<Rightarrow>
                if status r = 202
                then poll_until_done t D I loc (elapsed + latency t polls + I) (Suc polls)
                else if 200 \<le> status r \<and> status r < 300
                then Some (Suc polls, Inr (body r))
                else Some (Suc polls, Inl (ApiError (status r) (body r)))))"

text \<open>
  Modelled from the spec: \<open>pdf4meAsyncRequest\<close>, submit phase then poll phase, with the
  deadline and the interval as arguments.
\<close>

definition pdf4meAsyncRequest ::
  "transport \<Rightarrow> nat \<Rightarrow> nat \<Rightarrow> string \<Rightarrow> jsval \<Rightarrow> (nat \<times> (async_error + jsval)) option" where
  "pdf4meAsyncRequest t D I path payload =
     (case submit t path payload of
        Inl code \<Rightarrow> Some (0, Inl (TransportError code))
      | Inr r \<Rightarrow>
          if status r = 202 then poll_until_done t D I (location r) 0 0
          else if 200 \<le> status r \<and> status r < 300 then Some (0, Inr (body r))
          else Some (0, Inl (ApiError (status r) (body r))))"

text \<open>An endpoint that accepts every submission and answers every poll with 202.\<close>

definition never_done :: transport where
  "never_done =
     \<lparr>submit = (\<lambda>path payload. Inr \<lparr>status = 202, body = JNull, location = ''/status/1''\<rparr>),
      poll = (\<lambda>loc k. Inr \<lparr>status = 202, body = JNull, location = loc\<rparr>),
      latency = (\<lambda>k. 0)\<rparr>"

section \<open>Kinds of errors\<close>

text \<open>
  The messages of the input validation errors: a missing binary property, an unrecognised
  input mode, missing or blank content, a base64 text that does not start with the PDF
  header.
\<close>

definition content_required_messages :: "string list" where
  "content_required_messages =
     [''Invoice content is required'', ''Contract content is required'',
      ''Health card content is required'', ''Mortgage document content is required'',
      ''Bank cheque content is required'', ''Credit card content is required'',
      ''Pay stub content is required'', ''Marriage certificate content is required'']"

definition validation_message :: "string \<Rightarrow> bool" where
  "validation_message m =
     (startsWith m ''No binary data found in property ''
      \<or> startsWith m ''Unsupported input data type: ''
      \<or> m \<in> set content_required_messages
      \<or> startsWith m ''Invalid PDF content. '')"

fun is_validation_error :: "thrown \<Rightarrow> bool" where
  "is_validation_error (Error m) = validation_message m"
| "is_validation_error (NodeOperationError m) = validation_message m"
| "is_validation_error e = False"

fun is_api_request :: "net_event \<Rightarrow> bool" where
  "is_api_request (ApiRequest path payload) = True"
| "is_api_request (HttpGet url) = False"

section \<open>The actions as instances of one scheme\<close>

text \<open>
  For the properties that hold of every action, the nine functions are compared with one
  scheme, which is the common text of the actions with the varying literals, the payload
  and the metadata as parameters. The equations between each action and its instance of
  the scheme are proved below.
\<close>

record action_shape =
  mkError :: "string \<Rightarrow> thrown"
  request_error :: "string \<Rightarrow> string \<Rightarrow> err_obj \<Rightarrow> thrown"
  urlParameter :: string
  content_required :: string
  pdf_check :: bool
  api_path :: string
  no_response :: string
  payload_of :: "host \<Rightarrow> nat \<Rightarrow> string \<Rightarrow> string \<Rightarrow> jsval"
  metadata_of :: "host \<Rightarrow> nat \<Rightarrow> string \<Rightarrow> (string \<times> jsval) list"
  paired :: bool

definition execute_scheme :: "action_shape \<Rightarrow> host \<Rightarrow> nat \<Rightarrow> exec_data list result" where
  "execute_scheme sh h index =
     (let inputDataType = stringParameter h ''inputDataType'' index;
          docName = stringParameter h ''docName'' index
      in bind (resolve_docContent h index (mkError sh) inputDataType (urlParameter sh)) (\<lambda>resolved.
         bind (require_content (mkError sh) (content_required sh) resolved) (\<lambda>docContent.
         bind (if pdf_check sh then require_pdf_header (mkError sh) docContent else ret ()) (\<lambda>_.
         bind (call_api h index (api_path sh) (payload_of sh h index docName docContent)
                 (request_error sh docContent docName)) (\<lambda>result.
            if truthy result then
              bind (parse_result h (mkError sh) result) (\<lambda>processedData.
                ret [output_item processedData (metadata_of sh h index docName)
                       (if paired sh then Some index else None)])
            else throw (mkError sh (no_response sh)))))))"

text \<open>The payloads: the three fixed keys, and the optional keys of each document type.\<close>

definition plain_payload :: "host \<Rightarrow> nat \<Rightarrow> string \<Rightarrow> string \<Rightarrow> jsval" where
  "plain_payload h index docName docContent =
     JObj [(''docContent'', JStr docContent),
           (''docName'', JStr docName),
           (''IsAsync'', JBool True)]"

definition invoice_payload :: "host \<Rightarrow> nat \<Rightarrow> string \<Rightarrow> string \<Rightarrow> jsval" where
  "invoice_payload h index docName docContent =
     (let customFieldsList = fields_or_empty (fieldsParameter h ''customFields'' index);
          customFieldNames = collect_truthy ''name'' customFieldsList
      in JObj ([(''docName'', JStr docName),
                (''docContent'', JStr docContent)]
               @ (if length customFieldNames > 0
                  then [(''customFieldKeys'', JArr (map JStr customFieldNames))]
                  else [])
               @ [(''IsAsync'', JBool True)]))"

definition keys_payload :: "host \<Rightarrow> nat \<Rightarrow> string \<Rightarrow> string \<Rightarrow> jsval" where
  "keys_payload h index docName docContent =
     (let customFieldsList = fields_or_empty (fieldsParameter h ''customFields'' index);
          customFieldKeys = collect_truthy ''key'' customFieldsList;
          payload0 = [(''docName'', JStr docName),
                      (''docContent'', JStr docContent),
                      (''IsAsync'', JBool True)]
      in JObj (if length customFieldKeys > 0
               then set_prop payload0 ''CustomFieldKeys'' (JArr (map JStr customFieldKeys))
               else payload0))"

definition mortgage_payload :: "host \<Rightarrow> nat \<Rightarrow> string \<Rightarrow> string \<Rightarrow> jsval" where
  "mortgage_payload h index docName docContent =
     (let customFieldsList = fields_or_empty (fieldsParameter h ''customFields'' index);
          customFieldKeys = collect_truthy ''key'' customFieldsList;
          payload0 = [(''docName'', JStr docName),
                      (''docContent'', JStr docContent),
                      (''IsAsync'', JBool True)];
          documentType = stringParameter h ''documentType'' index;
          payload1 = (if documentType \<noteq> [] \<and> trim documentType \<noteq> []
                      then set_prop payload0 ''documentType'' (JStr (trim documentType))
                      else payload0)
      in JObj (if length customFieldKeys > 0
               then set_prop payload1 ''CustomFieldKeys'' (JArr (map JStr customFieldKeys))
               else payload1))"

definition marriage_payload :: "host \<Rightarrow> nat \<Rightarrow> string \<Rightarrow> string \<Rightarrow> jsval" where
  "marriage_payload h index docName docContent =
     (let customFieldsList = fields_or_empty (fieldsParameter h ''customFields'' index);
          customFieldKeys = collect_truthy ''key'' customFieldsList;
          payload0 = [(''docName'', JStr docName),
                      (''docContent'', JStr docContent),
                      (''IsAsync'', JBool True)];
          verifyAuthenticity = booleanParameter h ''verifyAuthenticity'' index;
          payload1 = (if verifyAuthenticity
                      then set_prop payload0 ''VerifyAuthenticity'' (JBool verifyAuthenticity)
                      else payload0)
      in JObj (if length customFieldKeys > 0
               then set_prop payload1 ''CustomFieldKeys'' (JArr (map JStr customFieldKeys))
               else payload1))"

text \<open>The metadata envelopes.\<close>

definition aiInvoiceParser_metadata :: "host \<Rightarrow> nat \<Rightarrow> string \<Rightarrow> (string \<times> jsval) list" where
  "aiInvoiceParser_metadata h index docName =
     (let customFieldsList = fields_or_empty (fieldsParameter h ''customFields'' index);
          metadata0 = base_metadata h index ''Invoice processed successfully using AI'' docName ''aiInvoiceParser''
      in if length customFieldsList > 0
         then set_prop (set_prop metadata0 ''customFieldsUsed''
                 (JArr (map (\<lambda>f. case map_of f ''name'' of
                                   None \<Rightarrow> JUndefined
                                 | Some v \<Rightarrow> JStr v) customFieldsList)))
                ''customFieldsCount'' (JNum (int (length customFieldsList)))
         else metadata0)"

definition aiProcessContract_metadata :: "host \<Rightarrow> nat \<Rightarrow> string \<Rightarrow> (string \<times> jsval) list" where
  "aiProcessContract_metadata h index docName =
     base_metadata h index ''Contract processed successfully using AI'' docName ''aiProcessContract''"

definition aiProcessHealthCard_metadata :: "host \<Rightarrow> nat \<Rightarrow> string \<Rightarrow> (string \<times> jsval) list" where
  "aiProcessHealthCard_metadata h index docName =
     base_metadata h index ''Health card processed successfully using AI'' docName ''aiProcessHealthCard''"

definition aiProcessMortgageDocument_metadata :: "host \<Rightarrow> nat \<Rightarrow> string \<Rightarrow> (string \<times> jsval) list" where
  "aiProcessMortgageDocument_metadata h index docName =
     (let customFieldsList = fields_or_empty (fieldsParameter h ''customFields'' index);
          customFieldKeys = collect_truthy ''key'' customFieldsList;
          metadata0 = base_metadata h index ''Mortgage document processed successfully using AI'' docName ''aiProcessMortgageDocument'';
          documentType = stringParameter h ''documentType'' index;
          metadata1 = (if documentType \<noteq> [] \<and> trim documentType \<noteq> []
                       then set_prop metadata0 ''documentType'' (JStr documentType)
                       else metadata0)
      in if length customFieldKeys > 0
         then set_prop (set_prop metadata1 ''customFieldsUsed''
                 (JArr (map JStr customFieldKeys)))
                ''customFieldsCount'' (JNum (int (length customFieldKeys)))
         else metadata1)"

definition aiProcessBankCheque_metadata :: "host \<Rightarrow> nat \<Rightarrow> string \<Rightarrow> (string \<times> jsval) list" where
  "aiProcessBankCheque_metadata h index docName =
     (let customFieldsList = fields_or_empty (fieldsParameter h ''customFields'' index);
          customFieldKeys = collect_truthy ''key'' customFieldsList;
          metadata0 = base_metadata h index ''Bank cheque processed successfully using AI'' docName ''aiProcessBankCheque''
      in if length customFieldKeys > 0
         then set_prop (set_prop metadata0 ''customFieldsUsed''
                 (JArr (map JStr customFieldKeys)))
                ''customFieldsCount'' (JNum (int (length customFieldKeys)))
         else metadata0)"

definition aiProcessCreditCard_metadata :: "host \<Rightarrow> nat \<Rightarrow> string \<Rightarrow> (string \<times> jsval) list" where
  "aiProcessCreditCard_metadata h index docName =
     (let customFieldsList = fields_or_empty (fieldsParameter h ''customFields'' index);
          customFieldKeys = collect_truthy ''key'' customFieldsList;
          metadata0 = base_metadata h index ''Credit card processed successfully using AI'' docName ''aiProcessCreditCard''
      in if length customFieldKeys > 0
         then set_prop (set_prop metadata0 ''customFieldsUsed''
                 (JArr (map JStr customFieldKeys)))
                ''customFieldsCount'' (JNum (int (length customFieldKeys)))
         else metadata0)"

definition aiProcessPayStub_metadata :: "host \<Rightarrow> nat \<Rightarrow> string \<Rightarrow> (string \<times> jsval) list" where
  "aiProcessPayStub_metadata h index docName =
     (let customFieldsList = fields_or_empty (fieldsParameter h ''customFields'' index);
          customFieldKeys = collect_truthy ''key'' customFieldsList;
          metadata0 = base_metadata h index ''Pay stub processed successfully using AI'' docName ''aiProcessPayStub''
      in if length customFieldKeys > 0
         then set_prop (set_prop metadata0 ''customFieldsUsed''
                 (JArr (map JStr customFieldKeys)))
                ''customFieldsCount'' (JNum (int (length customFieldKeys)))
         else metadata0)"

definition aiProcessMarriageCertificate_metadata :: "host \<Rightarrow> nat \<Rightarrow> string \<Rightarrow> (string \<times> jsval) list" where
  "aiProcessMarriageCertificate_metadata h index docName =
     (let customFieldsList = fields_or_empty (fieldsParameter h ''customFields'' index);
          customFieldKeys = collect_truthy ''key'' customFieldsList;
          metadata0 = base_metadata h index ''Marriage certificate processed successfully using AI'' docName ''aiProcessMarriageCertificate'';
          verifyAuthenticity = booleanParameter h ''verifyAuthenticity'' index;
          metadata1 = (if verifyAuthenticity
                       then set_prop metadata0 ''verifyAuthenticity'' (JBool verifyAuthenticity)
                       else metadata0)
      in if length customFieldKeys > 0
         then set_prop (set_prop metadata1 ''customFieldsUsed''
                 (JArr (map JStr customFieldKeys)))
                ''customFieldsCount'' (JNum (int (length customFieldKeys)))
         else metadata1)"

fun shape_of :: "action \<Rightarrow> action_shape" where
  "shape_of InvoiceParser =
     \<lparr>mkError = Error, request_error = request_error_plain,
      urlParameter = ''invoiceUrl'', content_required = ''Invoice content is required'',
      pdf_check = True, api_path = ''/api/v2/ProcessInvoice'',
      no_response = ''No response data received from PDF4ME AI Invoice Processing API'',
      payload_of = invoice_payload, metadata_of = aiInvoiceParser_metadata, paired = False\<rparr>"
| "shape_of Contract =
     \<lparr>mkError = NodeOperationError, request_error = request_error_node,
      urlParameter = ''contractUrl'', content_required = ''Contract content is required'',
      pdf_check = True, api_path = ''/api/v2/ProcessContract'',
      no_response = ''No response data received from PDF4ME AI Contract Processing API'',
      payload_of = plain_payload, metadata_of = aiProcessContract_metadata, paired = True\<rparr>"
| "shape_of ContractPlain =
     \<lparr>mkError = Error, request_error = request_error_plain,
      urlParameter = ''contractUrl'', content_required = ''Contract content is required'',
      pdf_check = True, api_path = ''/api/v2/ProcessContract'',
      no_response = ''No response data received from PDF4ME AI Contract Processing API'',
      payload_of = plain_payload, metadata_of = aiProcessContract_metadata, paired = False\<rparr>"
| "shape_of HealthCard =
     \<lparr>mkError = Error, request_error = request_error_plain,
      urlParameter = ''healthCardUrl'', content_required = ''Health card content is required'',
      pdf_check = False, api_path = ''/api/v2/ProcessHealthCard'',
      no_response = ''No response data received from PDF4ME AI Health Card Processing API'',
      payload_of = plain_payload, metadata_of = aiProcessHealthCard_metadata, paired = False\<rparr>"
| "shape_of MortgageDocument =
     \<lparr>mkError = Error, request_error = request_error_plain,
      urlParameter = ''mortgageDocumentUrl'', content_required = ''Mortgage document content is required'',
      pdf_check = True, api_path = ''/api/v2/ProcessMortgageDocument'',
      no_response = ''No response data received from PDF4ME AI Mortgage Document Processing API'',
      payload_of = mortgage_payload, metadata_of = aiProcessMortgageDocument_metadata, paired = False\<rparr>"
| "shape_of BankCheque =
     \<lparr>mkError = NodeOperationError, request_error = request_error_node,
      urlParameter = ''bankChequeUrl'', content_required = ''Bank cheque content is required'',
      pdf_check = True, api_path = ''/api/v2/ProcessBankCheque'',
      no_response = ''No response data received from PDF4ME AI Bank Cheque Processing API'',
      payload_of = keys_payload, metadata_of = aiProcessBankCheque_metadata, paired = True\<rparr>"
| "shape_of CreditCard =
     \<lparr>mkError = Error, request_error = request_error_plain,
      urlParameter = ''creditCardUrl'', content_required = ''Credit card content is required'',
      pdf_check = False, api_path = ''/api/v2/ProcessCreditCard'',
      no_response = ''No response data received from PDF4ME AI Credit Card Processing API'',
      payload_of = keys_payload, metadata_of = aiProcessCreditCard_metadata, paired = False\<rparr>"
| "shape_of PayStub =
     \<lparr>mkError = NodeOperationError, request_error = request_error_node,
      urlParameter = ''payStubUrl'', content_required = ''Pay stub content is required'',
      pdf_check = False, api_path = ''/api/v2/ProcessPayStub'',
      no_response = ''No response data received from PDF4ME AI Pay Stub Processing API'',
      payload_of = keys_payload, metadata_of = aiProcessPayStub_metadata, paired = True\<rparr>"
| "shape_of MarriageCertificate =
     \<lparr>mkError = Error, request_error = request_error_plain,
      urlParameter = ''marriageCertificateUrl'', content_required = ''Marriage certificate content is required'',
      pdf_check = False, api_path = ''/api/v2/ProcessMarriageCertificate'',
      no_response = ''No response data received from PDF4ME AI Marriage Certificate Processing API'',
      payload_of = marriage_payload, metadata_of = aiProcessMarriageCertificate_metadata, paired = False\<rparr>"

text \<open>
  The scheme in two halves: everything before the request (resolve the input and validate
  it), and everything after the reply (truthiness test, parsing, metadata).
\<close>

definition input_phase :: "action_shape \<Rightarrow> host \<Rightarrow> nat \<Rightarrow> string result" where
  "input_phase sh h index =
     bind (resolve_docContent h index (mkError sh)
             (stringParameter h ''inputDataType'' index) (urlParameter sh)) (\<lambda>resolved.
     bind (require_content (mkError sh) (content_required sh) resolved) (\<lambda>docContent.
     bind (if pdf_check sh then require_pdf_header (mkError sh) docContent else ret ()) (\<lambda>_.
     ret docContent)))"

definition response_phase ::
  "action_shape \<Rightarrow> host \<Rightarrow> nat \<Rightarrow> string \<Rightarrow> jsval \<Rightarrow> thrown + exec_data list" where
  "response_phase sh h index docName result =
     (if truthy result then
        (case snd (parse_result h (mkError sh) result) of
           Inl e \<Rightarrow> Inl e
         | Inr processedData \<Rightarrow>
             Inr [output_item processedData (metadata_of sh h index docName)
                    (if paired sh then Some index else None)])
      else Inl (mkError sh (no_response sh)))"

section \<open>A host to run the code on\<close>

text \<open>
  The host's \<open>getInputData(inputIndex?, connectionType?)\<close>: the argument selects one
  of the node's input connections (0 when left out, as in the first line of
  \<open>Pdf4me.execute\<close>), and the result is the list of all items that arrived on that
  connection. An index past the last connection is rejected; the index just after it
  yields no items. The node description declares one input.
\<close>

definition n8n_getInputData :: "input_item list list \<Rightarrow> nat \<Rightarrow> thrown + input_item list" where
  "n8n_getInputData inputData inputIndex =
     (if length inputData < inputIndex then Inl (HostError ''Could not get input with given index'')
      else if inputIndex < length inputData then Inr (inputData ! inputIndex)
      else Inr [])"

text \<open>A parser that agrees with \<open>JSON.parse\<close> on the few texts the runs below meet.\<close>

definition sample_parse :: "string \<Rightarrow> string + jsval" where
  "sample_parse s =
     (if s = ''{}'' then Inr (JObj [])
      else if s = ''42'' then Inr (JNum 42)
      else if s = [] then Inl ''Unexpected end of JSON input''
      else Inl ''Unexpected token'')"

text \<open>
  What one input item brings: its JSON, its binary properties, its parameter values, and
  what the network answers while it is processed.
\<close>

record item_setup =
  input_json :: jsval
  binary_data :: "(string \<times> byte list) list option"
  strings :: "(string \<times> string) list"
  flags :: "string list"
  field_list :: "(string \<times> string) list list option"
  download :: "err_obj + byte list"
  remote :: "err_obj + jsval"

definition setup_of :: "item_setup list \<Rightarrow> nat \<Rightarrow> item_setup" where
  "setup_of setups i =
     (case js_index setups i of
        Some s \<Rightarrow> s
      | None \<Rightarrow> \<lparr>input_json = JNull, binary_data = None, strings = [], flags = [], field_list = None,
                 download = Inl \<lparr>err_code = Some ''ENOTFOUND'', err_statusCode = None, err_message = None\<rparr>,
                 remote = Inl \<lparr>err_code = Some ''ENOTFOUND'', err_statusCode = None, err_message = None\<rparr>\<rparr>)"

text \<open>A node with one input connection that received the given items.\<close>

definition sample_host :: "item_setup list \<Rightarrow> bool \<Rightarrow> host" where
  "sample_host setups cont =
     \<lparr>getInputData = n8n_getInputData
        [map (\<lambda>s. \<lparr>item_json = input_json s,
                    item_binary = (case binary_data s of
                                     None \<Rightarrow> None
                                   | Some b \<Rightarrow> Some (\<lambda>p. map_of b p \<noteq> None))\<rparr>) setups],
      stringParameter = (\<lambda>name i. case map_of (strings (setup_of setups i)) name of
                                     None \<Rightarrow> []
                                   | Some v \<Rightarrow> v),
      booleanParameter = (\<lambda>name i. name \<in> set (flags (setup_of setups i))),
      fieldsParameter = (\<lambda>name i. field_list (setup_of setups i)),
      continueOnFail = cont,
      getBinaryDataBuffer = (\<lambda>i p. case binary_data (setup_of setups i) of
                                      None \<Rightarrow> Inl (HostError ''No binary data'')
                                    | Some b \<Rightarrow> (case map_of b p of
                                                  None \<Rightarrow> Inl (HostError ''No binary data'')
                                                | Some bytes \<Rightarrow> Inr bytes)),
      httpRequestWithAuthentication = (\<lambda>i url. download (setup_of setups i)),
      pdf4meAsyncRequest_call = (\<lambda>i path payload. remote (setup_of setups i)),
      JSON_parse = sample_parse,
      toISOString_now = (\<lambda>i. ''2024-05-01T10:00:00.000Z'')\<rparr>"

text \<open>The operation names used in the runs.\<close>

definition sample_constants :: action_constants where
  "sample_constants =
     \<lparr>AiInvoiceParser = ''AI-Invoice Parser'',
      AiProcessHealthCard = ''AI-Process HealthCard'',
      AiProcessContract = ''AI-Process Contract'',
      AiProcessMortgageDocument = ''AI-Process Mortgage Document'',
      AiProcessBankCheque = ''AI-Process Bank Cheque'',
      AiProcessCreditCard = ''AI-Process Credit Card'',
      AiProcessPayStub = ''AI-Process Pay Stub'',
      AiProcessMarriageCertificate = ''AI-Process Marriage Certificate''\<rparr>"

section \<open>What the dispatcher emits for one item\<close>




section \<open>Notions used in the claims about payloads and errors\<close>

text \<open>The actions that throw the host's error classes \<open>NodeOperationError\<close> and
  \<open>NodeApiError\<close>; the others throw plain \<open>Error\<close>s.\<close>

definition node_family :: "action \<Rightarrow> bool" where
  "node_family a = (a \<in> {Contract, BankCheque, PayStub})"

text \<open>
  The HTTP status a caller can read off a thrown value: a \<open>NodeApiError\<close> wraps the error
  object it was made from, a rejected request is that object, and an \<open>Error\<close>, a
  \<open>NodeOperationError\<close> or a \<open>TypeError\<close> made from a message has no status.
\<close>

fun carried_status :: "thrown \<Rightarrow> nat option" where
  "carried_status (NodeApiError e) = err_statusCode e"
| "carried_status (Rejected e) = err_statusCode e"
| "carried_status e = None"

text \<open>The keys of a payload.\<close>

definition payload_keys :: "jsval \<Rightarrow> string set" where
  "payload_keys v = (case v of JObj kvs \<Rightarrow> fst ` set kvs | _ \<Rightarrow> {})"

text \<open>
  The caller supplied a value for an optional field: at least one custom field whose key
  (or name, for invoices) is not empty; a document type that is not blank; a
  verification flag that is set.
\<close>

definition supplied_custom_fields :: "string \<Rightarrow> host \<Rightarrow> nat \<Rightarrow> bool" where
  "supplied_custom_fields prop h i =
     list_ex (\<lambda>f. case map_of f prop of None \<Rightarrow> False | Some v \<Rightarrow> v \<noteq> [])
       (fields_or_empty (fieldsParameter h ''customFields'' i))"

definition supplied_document_type :: "host \<Rightarrow> nat \<Rightarrow> bool" where
  "supplied_document_type h i =
     (stringParameter h ''documentType'' i \<noteq> []
      \<and> trim (stringParameter h ''documentType'' i) \<noteq> [])"

text \<open>The optional payload keys of each document type, present when supplied.\<close>

fun optional_keys :: "action \<Rightarrow> host \<Rightarrow> nat \<Rightarrow> string set" where
  "optional_keys InvoiceParser h i =
     (if supplied_custom_fields ''name'' h i then {''customFieldKeys''} else {})"
| "optional_keys Contract h i = {}"
| "optional_keys ContractPlain h i = {}"
| "optional_keys HealthCard h i = {}"
| "optional_keys MortgageDocument h i =
     (if supplied_document_type h i then {''documentType''} else {})
     \<union> (if supplied_custom_fields ''key'' h i then {''CustomFieldKeys''} else {})"
| "optional_keys BankCheque h i =
     (if supplied_custom_fields ''key'' h i then {''CustomFieldKeys''} else {})"
| "optional_keys CreditCard h i =
     (if supplied_custom_fields ''key'' h i then {''CustomFieldKeys''} else {})"
| "optional_keys PayStub h i =
     (if supplied_custom_fields ''key'' h i then {''CustomFieldKeys''} else {})"
| "optional_keys MarriageCertificate h i =
     (if booleanParameter h ''verifyAuthenticity'' i then {''VerifyAuthenticity''} else {})
     \<union> (if supplied_custom_fields ''key'' h i then {''CustomFieldKeys''} else {})"

section \<open>Notions used in the claims about validation\<close>

text \<open>The error class of an action, by its family.\<close>

definition action_error :: "action \<Rightarrow> string \<Rightarrow> thrown" where
  "action_error a = (if node_family a then NodeOperationError else Error)"

text \<open>Resolved content that counts as missing: \<open>undefined\<close>, the empty string, or
  white space only.\<close>

definition content_blank :: "string option \<Rightarrow> bool" where
  "content_blank c = (case c of None \<Rightarrow> True | Some s \<Rightarrow> s = [] \<or> trim s = [])"

text \<open>The messages of the errors for a missing binary property and for content without
  the PDF header.\<close>

definition no_binary_message :: "string \<Rightarrow> string" where
  "no_binary_message binaryPropertyName =
     ''No binary data found in property '' @ [apostrophe] @ binaryPropertyName @ [apostrophe]"

definition invalid_pdf_message :: "string \<Rightarrow> string" where
  "invalid_pdf_message docContent =
     ''Invalid PDF content. Base64 should start with '' @ [apostrophe] @ ''JVBERi0x''
     @ [apostrophe] @ '' (PDF header), but starts with: '' @ substring0 docContent 20"

text \<open>The binary property is not on the item: the item has no binary data at all, or
  none under that name.\<close>

definition binary_missing :: "input_item \<Rightarrow> string \<Rightarrow> bool" where
  "binary_missing item0 binaryPropertyName =
     (case item_binary item0 of None \<Rightarrow> True | Some binary \<Rightarrow> \<not> binary binaryPropertyName)"

text \<open>An item with the given string parameters and nothing else, to build runs from.\<close>

definition plain_item :: "(string \<times> string) list \<Rightarrow> item_setup" where
  "plain_item ps =
     \<lparr>input_json = JNull, binary_data = None, strings = ps, flags = [], field_list = None,
      download = Inr [], remote = Inr (JObj [])\<rparr>"



section \<open>Properties of the string functions\<close>

lemma str_split_nonempty: "str_split s sep \<noteq> []"
  by (induction s) (auto split: list.splits)

lemma str_split_no_sep: "sep \<notin> set s \<Longrightarrow> str_split s sep = [s]"
  by (induction s) (auto split: list.splits)

lemma str_split_append:
  "sep \<notin> set p \<Longrightarrow> str_split (p @ sep # r) sep = p # str_split r sep"
  by (induction p) (auto split: list.splits)

lemma str_split_hd: "hd (str_split r sep) = takeWhile (\<lambda>c. c \<noteq> sep) r"
  by (induction r) (auto simp: str_split_nonempty split: list.splits)

lemma normalize_first_segment:
  assumes "CHR '','' \<notin> set p"
  shows "normalize_base64Content (p @ CHR '','' # r) = Some (takeWhile (\<lambda>c. c \<noteq> CHR '','') r)"
proof -
  obtain x xs where parts: "str_split r CHR '','' = x # xs"
    using str_split_nonempty [of r "CHR '',''"] by (cases "str_split r CHR '',''") auto
  then have "x = takeWhile (\<lambda>c. c \<noteq> CHR '','') r"
    using str_split_hd [of r "CHR '',''"] by simp
  with parts assms show ?thesis
    by (simp add: normalize_base64Content_def str_includes_def js_index_def str_split_append)
qed

lemma normalize_without_comma:
  "CHR '','' \<notin> set s \<Longrightarrow> normalize_base64Content s = Some s"
  by (simp add: normalize_base64Content_def str_includes_def)

lemma normalize_result_without_comma:
  assumes "normalize_base64Content x = Some y"
  shows "CHR '','' \<notin> set y"
proof (cases "CHR '','' \<in> set x")
  case False
  with assms show ?thesis by (simp add: normalize_without_comma)
next
  case True
  then obtain p r where x: "x = p @ CHR '','' # r" and p: "CHR '','' \<notin> set p"
    by (auto dest: split_list_first)
  with assms have "y = takeWhile (\<lambda>c. c \<noteq> CHR '','') r"
    by (simp add: normalize_first_segment)
  then show ?thesis
    by (auto dest: set_takeWhileD)
qed

lemma comma_not_base64: "CHR '','' \<notin> set b64_alphabet"
  by (simp add: b64_alphabet_def)

lemma base64_text_without_comma: "is_base64_text s \<Longrightarrow> CHR '','' \<notin> set s"
  using comma_not_base64 by (auto simp: is_base64_text_def list_all_iff)

section \<open>Claims about input normalisation\<close>

text \<open>
  C7. Normalisation in base64 mode does not depend on a data-URL prefix: for base64 text
  \<open>s\<close> and a MIME type \<open>mime\<close> (which holds no comma), the input
  \<open>data:<mime>;base64,<s>\<close> and the bare input \<open>s\<close> both normalise to \<open>s\<close>; and
  normalising any normalised value again returns it unchanged.
\<close>

theorem normalization_prefix_idempotent:
  assumes "is_base64_text s" and "CHR '','' \<notin> set mime"
  shows "normalize_base64Content (data_url mime s) = normalize_base64Content s
         \<and> normalize_base64Content s = Some s
         \<and> (\<forall>x y. normalize_base64Content x = Some y \<longrightarrow> normalize_base64Content y = Some y)"
proof -
  have s: "CHR '','' \<notin> set s"
    using assms(1) by (rule base64_text_without_comma)
  have bare: "normalize_base64Content s = Some s"
    using s by (rule normalize_without_comma)
  have "CHR '','' \<notin> set (''data:'' @ mime @ '';base64'')"
    using assms(2) by simp
  then have "normalize_base64Content ((''data:'' @ mime @ '';base64'') @ CHR '','' # s)
             = Some (takeWhile (\<lambda>c. c \<noteq> CHR '','') s)"
    by (rule normalize_first_segment)
  moreover have "takeWhile (\<lambda>c. c \<noteq> CHR '','') s = s"
    using s by (auto simp: takeWhile_eq_all_conv)
  ultimately have prefixed: "normalize_base64Content (data_url mime s) = Some s"
    by (simp add: data_url_def)
  have again: "\<forall>x y. normalize_base64Content x = Some y \<longrightarrow> normalize_base64Content y = Some y"
    using normalize_result_without_comma normalize_without_comma by blast
  from prefixed bare again show ?thesis by simp
qed

theorem normalization_prefix_idempotent_witness:
  "is_base64_text ''JVBERi0x'' \<and> CHR '','' \<notin> set ''application/pdf''
   \<and> normalize_base64Content (data_url ''application/pdf'' ''JVBERi0x'') = Some ''JVBERi0x''
   \<and> normalize_base64Content ''JVBERi0x'' = Some ''JVBERi0x''"
proof -
  have a: "is_base64_text ''JVBERi0x''"
    by (simp add: is_base64_text_def b64_alphabet_def)
  have b: "CHR '','' \<notin> set ''application/pdf''"
    by simp
  show ?thesis
    using a b normalization_prefix_idempotent [OF a b] by simp
qed

text \<open>
  C10, as the code has it. Normalisation in base64 mode keys off commas, not off a
  \<open>data:\<close> prefix: an input with at least one comma becomes the text between its first
  comma and its next comma (or the end of the input when there is one comma only), so
  everything up to and including the first comma is discarded and so is everything from
  a second comma on; an input with exactly one comma becomes all that follows the comma;
  an input with no comma is passed through unchanged.
\<close>

theorem normalization_keeps_second_segment:
  "(CHR '','' \<notin> set p \<longrightarrow>
      normalize_base64Content (p @ CHR '','' # r) = Some (takeWhile (\<lambda>c. c \<noteq> CHR '','') r))
   \<and> (CHR '','' \<notin> set p \<longrightarrow> CHR '','' \<notin> set r \<longrightarrow>
      normalize_base64Content (p @ CHR '','' # r) = Some (after_first_comma (p @ CHR '','' # r)))
   \<and> (CHR '','' \<notin> set s \<longrightarrow> normalize_base64Content s = Some s)"
proof (intro conjI impI)
  assume p: "CHR '','' \<notin> set p"
  then show "normalize_base64Content (p @ CHR '','' # r) = Some (takeWhile (\<lambda>c. c \<noteq> CHR '','') r)"
    by (rule normalize_first_segment)
next
  assume p: "CHR '','' \<notin> set p" and r: "CHR '','' \<notin> set r"
  have "dropWhile (\<lambda>c. c \<noteq> CHR '','') (p @ CHR '','' # r) = CHR '','' # r"
    using p by (auto simp: dropWhile_append3)
  then have "after_first_comma (p @ CHR '','' # r) = r"
    by (simp add: after_first_comma_def)
  moreover have "takeWhile (\<lambda>c. c \<noteq> CHR '','') r = r"
    using r by (auto simp: takeWhile_eq_all_conv)
  ultimately show "normalize_base64Content (p @ CHR '','' # r) = Some (after_first_comma (p @ CHR '','' # r))"
    using p by (simp add: normalize_first_segment)
next
  assume "CHR '','' \<notin> set s"
  then show "normalize_base64Content s = Some s"
    by (rule normalize_without_comma)
qed

theorem normalization_keeps_second_segment_witness:
  "CHR '','' \<notin> set ''x'' \<and> CHR '','' \<notin> set ''JVBERi0x'' \<and> CHR '','' \<notin> set ''abc''
   \<and> normalize_base64Content ''x,JVBERi0x,rest'' = Some ''JVBERi0x''
   \<and> normalize_base64Content ''x,JVBERi0x'' = Some ''JVBERi0x''
   \<and> normalize_base64Content ''abc'' = Some ''abc''"
  using normalization_keeps_second_segment [of "''x''" "''JVBERi0x,rest''" "''abc''"]
    normalization_keeps_second_segment [of "''x''" "''JVBERi0x''" "''abc''"]
  by (simp add: after_first_comma_def)

text \<open>
  C10 as stated fails on an input with two commas: the part after the second comma is
  dropped as well, so the result is not what follows the first comma.
\<close>

theorem normalization_first_comma_counterexample:
  "normalize_base64Content ''a,b,c'' = Some ''b''
   \<and> after_first_comma ''a,b,c'' = ''b,c''
   \<and> normalize_base64Content ''a,b,c'' \<noteq> Some (after_first_comma ''a,b,c'')"
  by (simp add: normalize_base64Content_def str_includes_def js_index_def after_first_comma_def)

section \<open>The polling loop\<close>

lemma ceil_div_step:
  assumes "0 < I" and "e < D" and "e + I \<le> e'"
  shows "Suc ((D - e' + I - 1) div I) \<le> (D - e + I - 1) div I"
proof -
  define x where "x = D - e' + I - 1"
  have step: "(x + I) div I = Suc (x div I)"
    using assms(1) div_add_self2 [of I x] by auto
  have "x + I \<le> D - e + I - 1 \<or> (D - e' = 0 \<and> I \<le> D - e + I - 1)"
    using assms unfolding x_def by arith
  then show ?thesis
  proof
    assume "x + I \<le> D - e + I - 1"
    then have "(x + I) div I \<le> (D - e + I - 1) div I"
      by (rule div_le_mono)
    with step show ?thesis by (simp add: x_def)
  next
    assume a: "D - e' = 0 \<and> I \<le> D - e + I - 1"
    then have "I div I \<le> (D - e + I - 1) div I"
      by (intro div_le_mono) simp
    moreover have "x div I = 0"
      using a assms(1) by (simp add: x_def)
    ultimately show ?thesis using assms(1) by (simp add: x_def)
  qed
qed

lemma poll_until_done_timeout:
  assumes "0 < I"
    and "\<forall>k. \<exists>r. poll t loc k = Inr r \<and> status r = 202"
  shows "\<exists>n. poll_until_done t D I loc e k = Some (n, Inl TimeoutError)
             \<and> n \<le> k + (D - e + I - 1) div I"
proof (induction "D - e" arbitrary: e k rule: less_induct)
  case less
  show ?case
  proof (cases "D \<le> e")
    case True
    then show ?thesis
      by (subst poll_until_done.simps) simp
  next
    case False
    obtain r where r: "poll t loc k = Inr r" "status r = 202"
      using assms(2) by blast
    let ?e' = "e + latency t k + I"
    have "D - ?e' < D - e"
      using False assms(1) by arith
    from less [OF this] obtain n where
      n: "poll_until_done t D I loc ?e' (Suc k) = Some (n, Inl TimeoutError)"
         "n \<le> Suc k + (D - ?e' + I - 1) div I"
      by blast
    have "Suc ((D - ?e' + I - 1) div I) \<le> (D - e + I - 1) div I"
      using assms(1) False by (intro ceil_div_step) auto
    with n(2) have "n \<le> k + (D - e + I - 1) div I"
      by arith
    moreover have "poll_until_done t D I loc e k = Some (n, Inl TimeoutError)"
      using False r n(1) by (subst poll_until_done.simps) simp
    ultimately show ?thesis by blast
  qed
qed

text \<open>
  C2. For a deadline \<open>D\<close> and a poll interval \<open>I > 0\<close>: when the submission is accepted
  with 202 and every poll is answered with 202, the client returns, having issued at most
  \<open>ceil(D/I)\<close> polls (\<open>(D + I - 1) div I\<close>), and its result is the timeout error,
  which is not an API error.
\<close>

theorem polling_ends_in_timeout:
  assumes "0 < I"
    and "submit t path payload = Inr r0" and "status r0 = 202"
    and "\<forall>k. \<exists>r. poll t (location r0) k = Inr r \<and> status r = 202"
  shows "\<exists>n e. pdf4meAsyncRequest t D I path payload = Some (n, Inl e)
               \<and> n \<le> (D + I - 1) div I
               \<and> is_timeout e \<and> \<not> is_api_error e"
proof -
  from poll_until_done_timeout [OF assms(1) assms(4), of D 0 0]
  obtain n where "poll_until_done t D I (location r0) 0 0 = Some (n, Inl TimeoutError)"
    and "n \<le> (D + I - 1) div I"
    by auto
  then show ?thesis
    using assms(2,3) by (auto simp: pdf4meAsyncRequest_def)
qed

theorem polling_ends_in_timeout_witness:
  "(0::nat) < 3
   \<and> submit never_done ''/api/v2/ProcessInvoice'' JNull
       = Inr \<lparr>status = 202, body = JNull, location = ''/status/1''\<rparr>
   \<and> (\<forall>k. \<exists>r. poll never_done ''/status/1'' k = Inr r \<and> status r = 202)
   \<and> (\<exists>n e. pdf4meAsyncRequest never_done 10 3 ''/api/v2/ProcessInvoice'' JNull = Some (n, Inl e)
          \<and> n \<le> 4 \<and> is_timeout e \<and> \<not> is_api_error e)"
proof -
  have a: "submit never_done ''/api/v2/ProcessInvoice'' JNull
             = Inr \<lparr>status = 202, body = JNull, location = ''/status/1''\<rparr>"
    by (simp add: never_done_def)
  have b: "\<forall>k. \<exists>r. poll never_done (location \<lparr>status = 202, body = JNull, location = ''/status/1''\<rparr>) k = Inr r \<and> status r = 202"
    by (simp add: never_done_def)
  show ?thesis
    using a b polling_ends_in_timeout [of 3 never_done "''/api/v2/ProcessInvoice''" JNull
        "\<lparr>status = 202, body = JNull, location = ''/status/1''\<rparr>" 10]
    by simp
qed

lemma never_done_four_polls:
  "pdf4meAsyncRequest never_done 10 3 ''/api/v2/ProcessInvoice'' JNull = Some (4, Inl TimeoutError)"
  by (simp add: pdf4meAsyncRequest_def never_done_def poll_until_done.simps)

section \<open>Each action is its instance of the scheme\<close>

lemma bind_ret_unit: "bind (ret ()) f = f ()"
  by (cases "f ()") (simp add: bind_def ret_def)

lemma aiInvoiceParser_execute_scheme: "aiInvoiceParser_execute = execute_scheme (shape_of InvoiceParser)"
  by (intro ext) (simp add: aiInvoiceParser_execute_def execute_scheme_def invoice_payload_def aiInvoiceParser_metadata_def Let_def bind_ret_unit cong: if_cong)

lemma aiProcessContract_execute_scheme: "aiProcessContract_execute = execute_scheme (shape_of Contract)"
  by (intro ext) (simp add: aiProcessContract_execute_def execute_scheme_def plain_payload_def aiProcessContract_metadata_def Let_def bind_ret_unit cong: if_cong)

lemma aiProcessContract_plain_execute_scheme: "aiProcessContract_plain_execute = execute_scheme (shape_of ContractPlain)"
  by (intro ext) (simp add: aiProcessContract_plain_execute_def execute_scheme_def plain_payload_def aiProcessContract_metadata_def Let_def bind_ret_unit cong: if_cong)

lemma aiProcessHealthCard_execute_scheme: "aiProcessHealthCard_execute = execute_scheme (shape_of HealthCard)"
  by (intro ext) (simp add: aiProcessHealthCard_execute_def execute_scheme_def plain_payload_def aiProcessHealthCard_metadata_def Let_def bind_ret_unit cong: if_cong)

lemma aiProcessMortgageDocument_execute_scheme: "aiProcessMortgageDocument_execute = execute_scheme (shape_of MortgageDocument)"
  by (intro ext) (simp add: aiProcessMortgageDocument_execute_def execute_scheme_def mortgage_payload_def aiProcessMortgageDocument_metadata_def Let_def bind_ret_unit cong: if_cong)

lemma aiProcessBankCheque_execute_scheme: "aiProcessBankCheque_execute = execute_scheme (shape_of BankCheque)"
  by (intro ext) (simp add: aiProcessBankCheque_execute_def execute_scheme_def keys_payload_def aiProcessBankCheque_metadata_def Let_def bind_ret_unit cong: if_cong)

lemma aiProcessCreditCard_execute_scheme: "aiProcessCreditCard_execute = execute_scheme (shape_of CreditCard)"
  by (intro ext) (simp add: aiProcessCreditCard_execute_def execute_scheme_def keys_payload_def aiProcessCreditCard_metadata_def Let_def bind_ret_unit cong: if_cong)

lemma aiProcessPayStub_execute_scheme: "aiProcessPayStub_execute = execute_scheme (shape_of PayStub)"
  by (intro ext) (simp add: aiProcessPayStub_execute_def execute_scheme_def keys_payload_def aiProcessPayStub_metadata_def Let_def bind_ret_unit cong: if_cong)

lemma aiProcessMarriageCertificate_execute_scheme: "aiProcessMarriageCertificate_execute = execute_scheme (shape_of MarriageCertificate)"
  by (intro ext) (simp add: aiProcessMarriageCertificate_execute_def execute_scheme_def marriage_payload_def aiProcessMarriageCertificate_metadata_def Let_def bind_ret_unit cong: if_cong)

lemma run_action_scheme: "run_action a = execute_scheme (shape_of a)"
  by (cases a) (simp_all only: run_action.simps aiInvoiceParser_execute_scheme [symmetric] aiProcessContract_execute_scheme [symmetric] aiProcessContract_plain_execute_scheme [symmetric] aiProcessHealthCard_execute_scheme [symmetric] aiProcessMortgageDocument_execute_scheme [symmetric] aiProcessBankCheque_execute_scheme [symmetric] aiProcessCreditCard_execute_scheme [symmetric] aiProcessPayStub_execute_scheme [symmetric] aiProcessMarriageCertificate_execute_scheme [symmetric])

section \<open>The two phases of an action\<close>

lemma resolve_docContent_trace:
  "fst (resolve_docContent h i mk mode up)
     = (if mode = ''url'' then [HttpGet (stringParameter h up i)] else [])"
  by (simp add: resolve_docContent_def throw_def ret_def Let_def
           split: sum.splits option.splits)

lemma require_content_trace: "fst (require_content mk msg r) = []"
  by (simp add: require_content_def throw_def ret_def split: option.splits)

lemma require_pdf_header_trace: "fst (require_pdf_header mk d) = []"
  by (simp add: require_pdf_header_def throw_def ret_def)

lemma parse_result_trace: "fst (parse_result h mk r) = []"
  by (simp add: parse_result_def throw_def ret_def split: jsval.splits sum.splits)

lemma fst_bind:
  "fst (bind m f) = (case snd m of Inl e \<Rightarrow> fst m | Inr x \<Rightarrow> fst m @ fst (f x))"
  by (cases m) (auto simp: bind_def split: sum.splits prod.splits)

lemma snd_bind:
  "snd (bind m f) = (case snd m of Inl e \<Rightarrow> Inl e | Inr x \<Rightarrow> snd (f x))"
  by (cases m) (auto simp: bind_def split: sum.splits prod.splits)

lemma input_phase_trace:
  "fst (input_phase sh h i)
     = (if stringParameter h ''inputDataType'' i = ''url''
        then [HttpGet (stringParameter h (urlParameter sh) i)] else [])"
  by (simp add: input_phase_def fst_bind snd_bind resolve_docContent_trace
        require_content_trace require_pdf_header_trace ret_def split: sum.splits)

lemma input_phase_validated:
  assumes "snd (input_phase sh h i) = Inr d"
  shows "d \<noteq> [] \<and> trim d \<noteq> [] \<and> (pdf_check sh \<longrightarrow> startsWith d ''JVBERi0x'')"
  using assms
  by (auto simp: input_phase_def snd_bind require_content_def require_pdf_header_def
        throw_def ret_def split: sum.splits option.splits if_splits)

lemma bind_assoc: "bind (bind m f) g = bind m (\<lambda>x. bind (f x) g)"
  by (cases m) (auto simp: bind_def split: sum.splits prod.splits)

lemma bind_ret: "bind (ret x) f = f x"
  by (cases "f x") (simp add: bind_def ret_def)

lemma execute_scheme_bind:
  "execute_scheme sh h i =
     bind (input_phase sh h i) (\<lambda>docContent.
       bind (call_api h i (api_path sh)
               (payload_of sh h i (stringParameter h ''docName'' i) docContent)
               (request_error sh docContent (stringParameter h ''docName'' i))) (\<lambda>result.
         ([], response_phase sh h i (stringParameter h ''docName'' i) result)))"
proof -
  have resp: "(if truthy result then
                 bind (parse_result h (mkError sh) result) (\<lambda>processedData.
                   ret [output_item processedData (metadata_of sh h i dn)
                          (if paired sh then Some i else None)])
               else throw (mkError sh (no_response sh)))
              = ([], response_phase sh h i dn result)" for result dn
    using parse_result_trace [of h "mkError sh" result]
    by (cases "parse_result h (mkError sh) result")
       (auto simp: response_phase_def bind_def ret_def throw_def split: sum.splits)
  show ?thesis
    by (simp add: execute_scheme_def input_phase_def bind_assoc bind_ret resp Let_def)
qed

lemma execute_scheme_phases:
  "execute_scheme sh h i =
     (case input_phase sh h i of
        (tr, Inl e) \<Rightarrow> (tr, Inl e)
      | (tr, Inr docContent) \<Rightarrow>
          (tr @ [ApiRequest (api_path sh)
                   (payload_of sh h i (stringParameter h ''docName'' i) docContent)],
           case pdf4meAsyncRequest_call h i (api_path sh)
                  (payload_of sh h i (stringParameter h ''docName'' i) docContent) of
             Inl e \<Rightarrow> Inl (request_error sh docContent (stringParameter h ''docName'' i) e)
           | Inr result \<Rightarrow> response_phase sh h i (stringParameter h ''docName'' i) result))"
  by (simp add: execute_scheme_bind bind_def call_api_def split: prod.splits sum.splits)

section \<open>Validation errors and the network\<close>

lemma request_error_plain_not_validation:
  "\<not> is_validation_error (request_error_plain c d e)"
  by (simp add: request_error_plain_def connection_error_def validation_message_def
        startsWith_def content_required_messages_def split: option.splits)

lemma request_error_node_not_validation:
  "\<not> is_validation_error (request_error_node c d e)"
  by (simp add: request_error_node_def connection_error_def validation_message_def
        startsWith_def content_required_messages_def split: option.splits)

lemma request_error_not_validation:
  "\<not> is_validation_error (request_error (shape_of a) c d e)"
  by (cases a) (simp_all add: request_error_plain_not_validation request_error_node_not_validation)

lemma parse_error_not_validation:
  "snd (parse_result h (mkError (shape_of a)) r) = Inl e \<Longrightarrow> \<not> is_validation_error e"
  by (cases a)
     (auto simp: parse_result_def throw_def ret_def validation_message_def startsWith_def
        content_required_messages_def split: jsval.splits sum.splits)

lemma no_response_not_validation:
  "\<not> is_validation_error (mkError (shape_of a) (no_response (shape_of a)))"
  by (cases a)
     (simp_all add: validation_message_def startsWith_def content_required_messages_def)

lemma response_phase_not_validation:
  "response_phase (shape_of a) h i dn r = Inl e \<Longrightarrow> \<not> is_validation_error e"
  using parse_error_not_validation [of h a r e] no_response_not_validation [of a]
  by (auto simp: response_phase_def split: if_splits sum.splits)

text \<open>
  A validation error comes out of the input phase, so when one is thrown no request to
  the remote API is in the trace, and no request at all outside URL mode.
\<close>

lemma validation_error_trace:
  assumes "snd (run_action a h i) = Inl e" and "is_validation_error e"
  shows "(\<forall>ev \<in> set (fst (run_action a h i)). \<not> is_api_request ev)
         \<and> (stringParameter h ''inputDataType'' i \<noteq> ''url'' \<longrightarrow> fst (run_action a h i) = [])
         \<and> (stringParameter h ''inputDataType'' i = ''url'' \<longrightarrow>
              fst (run_action a h i) = [HttpGet (stringParameter h (urlParameter (shape_of a)) i)])"
proof -
  obtain tr r where ip: "input_phase (shape_of a) h i = (tr, r)"
    by (cases "input_phase (shape_of a) h i")
  have tr: "tr = (if stringParameter h ''inputDataType'' i = ''url''
                  then [HttpGet (stringParameter h (urlParameter (shape_of a)) i)] else [])"
    using input_phase_trace [of "shape_of a" h i] ip by simp
  show ?thesis
  proof (cases r)
    case (Inl e')
    then have "run_action a h i = (tr, Inl e')"
      using ip by (simp add: run_action_scheme execute_scheme_phases)
    with tr show ?thesis by simp
  next
    case (Inr d)
    let ?dn = "stringParameter h ''docName'' i"
    let ?pl = "payload_of (shape_of a) h i ?dn d"
    have run: "snd (run_action a h i) =
                 (case pdf4meAsyncRequest_call h i (api_path (shape_of a)) ?pl of
                    Inl x \<Rightarrow> Inl (request_error (shape_of a) d ?dn x)
                  | Inr result \<Rightarrow> response_phase (shape_of a) h i ?dn result)"
      using ip Inr by (simp add: run_action_scheme execute_scheme_phases)
    have "\<not> is_validation_error e"
    proof (cases "pdf4meAsyncRequest_call h i (api_path (shape_of a)) ?pl")
      case (Inl x)
      with run assms(1) have "e = request_error (shape_of a) d ?dn x" by simp
      then show ?thesis by (simp add: request_error_not_validation)
    next
      case (Inr result)
      with run assms(1) have "response_phase (shape_of a) h i ?dn result = Inl e" by simp
      then show ?thesis by (rule response_phase_not_validation)
    qed
    with assms(2) show ?thesis by simp
  qed
qed

text \<open>
  C1 as stated fails in URL mode: the document has to be downloaded before it can be
  validated. Here the download brings the seven bytes of \<open>notapdf\<close>; the invoice action
  raises the PDF header error after one HTTP request.
\<close>

theorem validation_after_download_counterexample:
  "run_action InvoiceParser
     (sample_host [\<lparr>input_json = JNull, binary_data = None,
                     strings = [(''inputDataType'', ''url''), (''docName'', ''invoice.pdf''),
                                (''invoiceUrl'', ''https://example.com/invoice.pdf'')],
                     flags = [], field_list = None,
                     download = Inr [0x6E, 0x6F, 0x74, 0x61, 0x70, 0x64, 0x66],
                     remote = Inr (JObj [])\<rparr>] False) 0
   = ([HttpGet ''https://example.com/invoice.pdf''],
      Inl (Error (''Invalid PDF content. Base64 should start with '' @ [apostrophe]
                   @ ''JVBERi0x'' @ [apostrophe] @ '' (PDF header), but starts with: bm90YXBkZg=='')))
   \<and> is_validation_error
        (Error (''Invalid PDF content. Base64 should start with '' @ [apostrophe]
                   @ ''JVBERi0x'' @ [apostrophe] @ '' (PDF header), but starts with: bm90YXBkZg==''))"
  by (simp add: aiInvoiceParser_execute_def sample_host_def setup_of_def js_index_def
        resolve_docContent_def b64_char_def b64_alphabet_def
        require_content_def require_pdf_header_def startsWith_def substring0_def
        trim_def is_js_space_def bind_def ret_def throw_def
        validation_message_def)

section \<open>The dispatch loop\<close>











section \<open>Runs of the dispatcher\<close>

lemma collect_truthy_Nil: "collect_truthy prop [] = []"
  by (simp add: collect_truthy_def)

lemma collect_truthy_Cons:
  "collect_truthy prop (f # fs) =
     (case map_of f prop of None \<Rightarrow> [] | Some v \<Rightarrow> if v \<noteq> [] then [v] else [])
     @ collect_truthy prop fs"
  by (simp add: collect_truthy_def)

lemmas host_defs =
  sample_host_def setup_of_def js_index_def n8n_getInputData_def sample_constants_def
  sample_parse_def

lemmas step_defs =
  resolve_docContent_def normalize_base64Content_def str_includes_def
  require_content_def require_pdf_header_def startsWith_def substring0_def
  trim_def is_js_space_def b64_char_def b64_alphabet_def
  fields_or_empty_def collect_truthy_Nil collect_truthy_Cons message_or_def show_code_def debug_suffix_def
  request_error_plain_def request_error_node_def connection_error_def call_api_def
  parse_result_def
  base_metadata_def output_item_def set_prop_def
  bind_def ret_def throw_def after_def apostrophe_def Let_def



text \<open>
  C4. When an action throws and the host is set to continue on failure, the dispatcher is
  to emit, for that item alone, an error record carrying the item's input JSON and the
  error, and go on with the next item. On two items that both fail (an unsupported input
  mode) the code does not: the error record for item 1 reads
  \<open>this.getInputData(1)[0].json\<close>, but the argument of \<open>getInputData\<close> is the index of
  an input connection, not of an item; the node has one input, so the read throws inside
  the catch block. No error record is emitted for item 1, the loop does not go on, and
  the record already made for item 0 is lost with the batch.
\<close>

theorem error_record_second_item_aborts:
  "execute sample_constants
     (sample_host
        [\<lparr>input_json = JObj [(''id'', JNum 1)], binary_data = None,
          strings = [(''operation'', ''AI-Invoice Parser''), (''inputDataType'', ''ftp'')],
          flags = [], field_list = None, download = Inr [], remote = Inr JNull\<rparr>,
         \<lparr>input_json = JObj [(''id'', JNum 2)], binary_data = None,
          strings = [(''operation'', ''AI-Invoice Parser''), (''inputDataType'', ''ftp'')],
          flags = [], field_list = None, download = Inr [], remote = Inr JNull\<rparr>]
        True)
   = ([], Inl (TypeError ''Cannot read properties of undefined (reading json)''))"
  by (simp add: execute_def execute_from.simps dispatch_def error_item_def
        aiInvoiceParser_execute_def host_defs step_defs)

text \<open>When the host does not continue on failure, the error of the first failing item is
  the error of the whole run.\<close>

lemma failure_rethrown:
  assumes "i < length items" and "dispatch ac h i = (tr, Inl err)" and "\<not> continueOnFail h"
  shows "execute_from ac h items i acc = (tr, Inl err)"
  using assms by (simp add: execute_from.simps [of ac h items i])

text \<open>With the failing item alone in the batch the error record is as intended.\<close>

lemma error_record_first_item:
  "execute sample_constants
     (sample_host
        [\<lparr>input_json = JObj [(''id'', JNum 1)], binary_data = None,
          strings = [(''operation'', ''AI-Invoice Parser''), (''inputDataType'', ''ftp'')],
          flags = [], field_list = None, download = Inr [], remote = Inr JNull\<rparr>]
        True)
   = ([], Inr [[\<lparr>json = JObj [(''id'', JNum 1)],
                  error = Some (Error ''Unsupported input data type: ftp''),
                  pairedItem = Some 0\<rparr>]])"
  by (simp add: execute_def execute_from.simps dispatch_def error_item_def
        aiInvoiceParser_execute_def host_defs step_defs)

section \<open>After the request\<close>

lemma input_phase_no_api_request:
  "ApiRequest p pl \<notin> set (fst (input_phase sh h i))"
  by (simp add: input_phase_trace)

lemma api_request_in_trace:
  assumes "ApiRequest p pl \<in> set (fst (execute_scheme sh h i))"
  shows "\<exists>d. snd (input_phase sh h i) = Inr d \<and> p = api_path sh
             \<and> pl = payload_of sh h i (stringParameter h ''docName'' i) d"
proof -
  obtain tr r where ip: "input_phase sh h i = (tr, r)"
    by (cases "input_phase sh h i")
  have tr: "ApiRequest p pl \<notin> set tr"
    using input_phase_no_api_request [of p pl sh h i] ip by simp
  show ?thesis
  proof (cases r)
    case (Inl e)
    with ip assms tr show ?thesis
      by (simp add: execute_scheme_phases)
  next
    case (Inr d)
    with ip assms tr show ?thesis
      by (auto simp: execute_scheme_phases)
  qed
qed

lemma execute_scheme_after_request:
  assumes "ApiRequest p pl \<in> set (fst (execute_scheme sh h i))"
  shows "\<exists>d. snd (input_phase sh h i) = Inr d
             \<and> snd (execute_scheme sh h i) =
                 (case pdf4meAsyncRequest_call h i p pl of
                    Inl e \<Rightarrow> Inl (request_error sh d (stringParameter h ''docName'' i) e)
                  | Inr result \<Rightarrow> response_phase sh h i (stringParameter h ''docName'' i) result)"
proof -
  from api_request_in_trace [OF assms] obtain d where
    d: "snd (input_phase sh h i) = Inr d" and p: "p = api_path sh"
    and pl: "pl = payload_of sh h i (stringParameter h ''docName'' i) d"
    by blast
  obtain tr where "input_phase sh h i = (tr, Inr d)"
    using d by (cases "input_phase sh h i") simp
  then have "snd (execute_scheme sh h i) =
                 (case pdf4meAsyncRequest_call h i p pl of
                    Inl e \<Rightarrow> Inl (request_error sh d (stringParameter h ''docName'' i) e)
                  | Inr result \<Rightarrow> response_phase sh h i (stringParameter h ''docName'' i) result)"
    by (simp add: execute_scheme_phases p pl)
  with d show ?thesis by blast
qed

lemma request_error_of_action:
  "request_error (shape_of a) = (if node_family a then request_error_node else request_error_plain)"
  by (cases a) (simp_all add: node_family_def)

lemma mkError_of_action:
  "mkError (shape_of a) = (if node_family a then NodeOperationError else Error)"
  by (cases a) (simp_all add: node_family_def)

text \<open>
  C8, as the code has it. When the async request is rejected with HTTP status 401 (and
  the error code is not \<open>ECONNRESET\<close>), the contract, bank cheque and pay stub actions
  throw a \<open>NodeApiError\<close> made from the rejection, in which the status 401 is preserved;
  the other actions throw a plain \<open>Error\<close> whose message is
  \<open>Authentication failed. Debug: docLength=<n>, docName=<name>\<close>, which carries no
  status.
\<close>

theorem authentication_failure_by_family:
  assumes "ApiRequest p pl \<in> set (fst (run_action a h i))"
    and "pdf4meAsyncRequest_call h i p pl = Inl e"
    and "err_statusCode e = Some 401"
    and "err_code e \<noteq> Some ''ECONNRESET''"
  shows "(node_family a \<longrightarrow>
            snd (run_action a h i) = Inl (NodeApiError e)
            \<and> carried_status (NodeApiError e) = Some 401)
         \<and> (\<not> node_family a \<longrightarrow>
            (\<exists>d::string. snd (run_action a h i)
                   = Inl (Error (''Authentication failed. Debug: docLength=''
                                 @ string_of_nat (length d) @ '', docName=''
                                 @ stringParameter h ''docName'' i))
                 \<and> carried_status (Error (''Authentication failed. Debug: docLength=''
                                 @ string_of_nat (length d) @ '', docName=''
                                 @ stringParameter h ''docName'' i)) = None))"
proof -
  from execute_scheme_after_request [of p pl "shape_of a" h i] assms(1,2)
  obtain d where
    run: "snd (run_action a h i)
            = Inl (request_error (shape_of a) d (stringParameter h ''docName'' i) e)"
    by (auto simp: run_action_scheme)
  show ?thesis
  proof (cases "node_family a")
    case True
    with run assms(3) show ?thesis
      by (simp add: request_error_of_action request_error_node_def)
  next
    case False
    with run assms(3,4) have eq:
      "snd (run_action a h i)
         = Inl (Error (''Authentication failed. Debug: docLength=''
                       @ string_of_nat (length d) @ '', docName=''
                       @ stringParameter h ''docName'' i))"
      by (simp add: request_error_of_action request_error_plain_def debug_suffix_def)
    have "\<exists>d::string. snd (run_action a h i)
                   = Inl (Error (''Authentication failed. Debug: docLength=''
                                 @ string_of_nat (length d) @ '', docName=''
                                 @ stringParameter h ''docName'' i))
                 \<and> carried_status (Error (''Authentication failed. Debug: docLength=''
                                 @ string_of_nat (length d) @ '', docName=''
                                 @ stringParameter h ''docName'' i)) = None"
    proof (intro exI conjI)
      show "snd (run_action a h i)
                   = Inl (Error (''Authentication failed. Debug: docLength=''
                                 @ string_of_nat (length d) @ '', docName=''
                                 @ stringParameter h ''docName'' i))"
        by (rule eq)
      show "carried_status (Error (''Authentication failed. Debug: docLength=''
                                 @ string_of_nat (length d) @ '', docName=''
                                 @ stringParameter h ''docName'' i)) = None"
        by simp
    qed
    with False show ?thesis by blast
  qed
qed

text \<open>
  C9, as the code has it. When the async request returns a non-empty string that
  \<open>JSON.parse\<close> rejects, the action throws its parse failure error
  \<open>Failed to parse API response: <reason>\<close>; the unparsed text is not returned.
\<close>

theorem unparsable_response_is_an_error:
  assumes "ApiRequest p pl \<in> set (fst (run_action a h i))"
    and "pdf4meAsyncRequest_call h i p pl = Inr (JStr s)"
    and "s \<noteq> []"
    and "JSON_parse h s = Inl m"
  shows "snd (run_action a h i)
           = Inl ((if node_family a then NodeOperationError else Error)
                    (''Failed to parse API response: '' @ m))"
proof -
  from execute_scheme_after_request [of p pl "shape_of a" h i] assms(1,2)
  have "snd (run_action a h i)
          = response_phase (shape_of a) h i (stringParameter h ''docName'' i) (JStr s)"
    by (auto simp: run_action_scheme)
  with assms(3,4) show ?thesis
    by (simp add: response_phase_def parse_result_def throw_def mkError_of_action)
qed

section \<open>Runs with a failing request or an unparsable reply\<close>

lemmas number_defs = string_of_nat.simps digit_char_def

text \<open>The contract action, with the request rejected with status 401.\<close>

theorem authentication_failure_by_family_witness:
  "ApiRequest ''/api/v2/ProcessContract'' (JObj [(''docContent'', JStr ''JVBERi0x''), (''docName'', JStr ''contract.pdf''), (''IsAsync'', JBool True)])
     \<in> set (fst (run_action Contract
          (sample_host [\<lparr>input_json = JNull, binary_data = None,
                     strings = [(''inputDataType'', ''base64''), (''docName'', ''contract.pdf''),
                                (''base64Content'', ''JVBERi0x'')],
                     flags = [], field_list = None, download = Inr [],
                     remote = Inl \<lparr>err_code = None, err_statusCode = Some 401, err_message = Some ''Unauthorized''\<rparr>\<rparr>] False) 0))
   \<and> snd (run_action Contract
          (sample_host [\<lparr>input_json = JNull, binary_data = None,
                     strings = [(''inputDataType'', ''base64''), (''docName'', ''contract.pdf''),
                                (''base64Content'', ''JVBERi0x'')],
                     flags = [], field_list = None, download = Inr [],
                     remote = Inl \<lparr>err_code = None, err_statusCode = Some 401, err_message = Some ''Unauthorized''\<rparr>\<rparr>] False) 0)
       = Inl (NodeApiError \<lparr>err_code = None, err_statusCode = Some 401, err_message = Some ''Unauthorized''\<rparr>)
   \<and> carried_status (NodeApiError \<lparr>err_code = None, err_statusCode = Some 401, err_message = Some ''Unauthorized''\<rparr>) = Some 401"
proof -
  let ?h = "(sample_host [\<lparr>input_json = JNull, binary_data = None,
                     strings = [(''inputDataType'', ''base64''), (''docName'', ''contract.pdf''),
                                (''base64Content'', ''JVBERi0x'')],
                     flags = [], field_list = None, download = Inr [],
                     remote = Inl \<lparr>err_code = None, err_statusCode = Some 401, err_message = Some ''Unauthorized''\<rparr>\<rparr>] False)"
  let ?pl = "(JObj [(''docContent'', JStr ''JVBERi0x''), (''docName'', JStr ''contract.pdf''), (''IsAsync'', JBool True)])"
  let ?e = "\<lparr>err_code = None, err_statusCode = Some 401, err_message = Some ''Unauthorized''\<rparr>"
  have tr: "ApiRequest ''/api/v2/ProcessContract'' ?pl \<in> set (fst (run_action Contract ?h 0))"
    by (simp add: aiProcessContract_execute_def host_defs step_defs)
  have rej: "pdf4meAsyncRequest_call ?h 0 ''/api/v2/ProcessContract'' ?pl = Inl ?e"
    by (simp add: host_defs)
  have st: "err_statusCode ?e = Some 401" by simp
  have cd: "err_code ?e \<noteq> Some ''ECONNRESET''" by simp
  have fam: "node_family Contract" by (simp add: node_family_def)
  from authentication_failure_by_family [OF tr rej st cd] fam tr show ?thesis
    by simp
qed

text \<open>
  C8 as stated fails for the invoice action (and the other actions that throw plain
  \<open>Error\<close>s): the 401 is replaced by a message, and the status is not carried.
\<close>

theorem authentication_status_dropped_counterexample:
  "pdf4meAsyncRequest_call
          (sample_host [\<lparr>input_json = JNull, binary_data = None,
                     strings = [(''inputDataType'', ''base64''), (''docName'', ''invoice.pdf''),
                                (''base64Content'', ''JVBERi0x'')],
                     flags = [], field_list = None, download = Inr [],
                     remote = Inl \<lparr>err_code = None, err_statusCode = Some 401, err_message = Some ''Unauthorized''\<rparr>\<rparr>] False) 0 ''/api/v2/ProcessInvoice'' (JObj [(''docName'', JStr ''invoice.pdf''), (''docContent'', JStr ''JVBERi0x''), (''IsAsync'', JBool True)])
     = Inl \<lparr>err_code = None, err_statusCode = Some 401, err_message = Some ''Unauthorized''\<rparr>
   \<and> run_action InvoiceParser
          (sample_host [\<lparr>input_json = JNull, binary_data = None,
                     strings = [(''inputDataType'', ''base64''), (''docName'', ''invoice.pdf''),
                                (''base64Content'', ''JVBERi0x'')],
                     flags = [], field_list = None, download = Inr [],
                     remote = Inl \<lparr>err_code = None, err_statusCode = Some 401, err_message = Some ''Unauthorized''\<rparr>\<rparr>] False) 0
     = ([ApiRequest ''/api/v2/ProcessInvoice'' (JObj [(''docName'', JStr ''invoice.pdf''), (''docContent'', JStr ''JVBERi0x''), (''IsAsync'', JBool True)])],
        Inl (Error ''Authentication failed. Debug: docLength=8, docName=invoice.pdf''))
   \<and> carried_status (Error ''Authentication failed. Debug: docLength=8, docName=invoice.pdf'')
       \<noteq> Some 401"
  by (simp add: aiInvoiceParser_execute_def host_defs step_defs number_defs)

text \<open>The invoice action, with a reply that is text but not JSON.\<close>

theorem unparsable_response_is_an_error_witness:
  "ApiRequest ''/api/v2/ProcessInvoice'' (JObj [(''docName'', JStr ''invoice.pdf''), (''docContent'', JStr ''JVBERi0x''), (''IsAsync'', JBool True)])
     \<in> set (fst (run_action InvoiceParser
          (sample_host [\<lparr>input_json = JNull, binary_data = None,
                     strings = [(''inputDataType'', ''base64''), (''docName'', ''invoice.pdf''),
                                (''base64Content'', ''JVBERi0x'')],
                     flags = [], field_list = None, download = Inr [],
                     remote = Inr (JStr ''not json'')\<rparr>] False) 0))
   \<and> JSON_parse (sample_host [\<lparr>input_json = JNull, binary_data = None,
                     strings = [(''inputDataType'', ''base64''), (''docName'', ''invoice.pdf''),
                                (''base64Content'', ''JVBERi0x'')],
                     flags = [], field_list = None, download = Inr [],
                     remote = Inr (JStr ''not json'')\<rparr>] False) ''not json'' = Inl ''Unexpected token''
   \<and> snd (run_action InvoiceParser
          (sample_host [\<lparr>input_json = JNull, binary_data = None,
                     strings = [(''inputDataType'', ''base64''), (''docName'', ''invoice.pdf''),
                                (''base64Content'', ''JVBERi0x'')],
                     flags = [], field_list = None, download = Inr [],
                     remote = Inr (JStr ''not json'')\<rparr>] False) 0)
       = Inl (Error ''Failed to parse API response: Unexpected token'')"
proof -
  let ?h = "(sample_host [\<lparr>input_json = JNull, binary_data = None,
                     strings = [(''inputDataType'', ''base64''), (''docName'', ''invoice.pdf''),
                                (''base64Content'', ''JVBERi0x'')],
                     flags = [], field_list = None, download = Inr [],
                     remote = Inr (JStr ''not json'')\<rparr>] False)"
  let ?pl = "(JObj [(''docName'', JStr ''invoice.pdf''), (''docContent'', JStr ''JVBERi0x''), (''IsAsync'', JBool True)])"
  have tr: "ApiRequest ''/api/v2/ProcessInvoice'' ?pl \<in> set (fst (run_action InvoiceParser ?h 0))"
    by (simp add: aiInvoiceParser_execute_def host_defs step_defs)
  have rep: "pdf4meAsyncRequest_call ?h 0 ''/api/v2/ProcessInvoice'' ?pl = Inr (JStr ''not json'')"
    by (simp add: host_defs)
  have ne: "''not json'' \<noteq> []" by simp
  have bad: "JSON_parse ?h ''not json'' = Inl ''Unexpected token''"
    by (simp add: host_defs)
  have fam: "\<not> node_family InvoiceParser" by (simp add: node_family_def)
  from unparsable_response_is_an_error [OF tr rep ne bad] fam tr bad show ?thesis
    by simp
qed

text \<open>
  C9 as stated fails for the empty string, which is not valid JSON either: it is falsy,
  so the action never parses it and throws its "no response" error instead of the parse
  failure error.
\<close>

theorem empty_response_counterexample:
  "JSON_parse (sample_host [\<lparr>input_json = JNull, binary_data = None,
                     strings = [(''inputDataType'', ''base64''), (''docName'', ''invoice.pdf''),
                                (''base64Content'', ''JVBERi0x'')],
                     flags = [], field_list = None, download = Inr [],
                     remote = Inr (JStr [])\<rparr>] False) [] = Inl ''Unexpected end of JSON input''
   \<and> run_action InvoiceParser
          (sample_host [\<lparr>input_json = JNull, binary_data = None,
                     strings = [(''inputDataType'', ''base64''), (''docName'', ''invoice.pdf''),
                                (''base64Content'', ''JVBERi0x'')],
                     flags = [], field_list = None, download = Inr [],
                     remote = Inr (JStr [])\<rparr>] False) 0
     = ([ApiRequest ''/api/v2/ProcessInvoice'' (JObj [(''docName'', JStr ''invoice.pdf''), (''docContent'', JStr ''JVBERi0x''), (''IsAsync'', JBool True)])],
        Inl (Error ''No response data received from PDF4ME AI Invoice Processing API''))
   \<and> Error ''No response data received from PDF4ME AI Invoice Processing API''
       \<noteq> Error (''Failed to parse API response: '' @ ''Unexpected end of JSON input'')"
  by (simp add: aiInvoiceParser_execute_def host_defs step_defs)

section \<open>The request payload\<close>

lemma collect_truthy_nonempty:
  "collect_truthy prop fs \<noteq> []
     \<longleftrightarrow> list_ex (\<lambda>f. case map_of f prop of None \<Rightarrow> False | Some v \<Rightarrow> v \<noteq> []) fs"
  by (induction fs) (auto simp: collect_truthy_def split: option.splits)

lemma supplied_custom_fields_collect:
  "supplied_custom_fields prop h i
     \<longleftrightarrow> collect_truthy prop (fields_or_empty (fieldsParameter h ''customFields'' i)) \<noteq> []"
  by (simp add: supplied_custom_fields_def collect_truthy_nonempty)

lemma plain_payload_props:
  "get_prop (plain_payload h i dn d) ''docName'' = JStr dn"
  "get_prop (plain_payload h i dn d) ''docContent'' = JStr d"
  "get_prop (plain_payload h i dn d) ''IsAsync'' = JBool True"
  "payload_keys (plain_payload h i dn d) = {''docName'', ''docContent'', ''IsAsync''}"
  by (auto simp: plain_payload_def get_prop_def payload_keys_def)

lemma invoice_payload_props:
  "get_prop (invoice_payload h i dn d) ''docName'' = JStr dn"
  "get_prop (invoice_payload h i dn d) ''docContent'' = JStr d"
  "get_prop (invoice_payload h i dn d) ''IsAsync'' = JBool True"
  "payload_keys (invoice_payload h i dn d)
     = {''docName'', ''docContent'', ''IsAsync''}
       \<union> (if supplied_custom_fields ''name'' h i then {''customFieldKeys''} else {})"
  by (auto simp: invoice_payload_def get_prop_def payload_keys_def Let_def
        supplied_custom_fields_collect)

lemma keys_payload_props:
  "get_prop (keys_payload h i dn d) ''docName'' = JStr dn"
  "get_prop (keys_payload h i dn d) ''docContent'' = JStr d"
  "get_prop (keys_payload h i dn d) ''IsAsync'' = JBool True"
  "payload_keys (keys_payload h i dn d)
     = {''docName'', ''docContent'', ''IsAsync''}
       \<union> (if supplied_custom_fields ''key'' h i then {''CustomFieldKeys''} else {})"
  by (auto simp: keys_payload_def get_prop_def payload_keys_def Let_def set_prop_def
        supplied_custom_fields_collect)

lemma mortgage_payload_props:
  "get_prop (mortgage_payload h i dn d) ''docName'' = JStr dn"
  "get_prop (mortgage_payload h i dn d) ''docContent'' = JStr d"
  "get_prop (mortgage_payload h i dn d) ''IsAsync'' = JBool True"
  "payload_keys (mortgage_payload h i dn d)
     = {''docName'', ''docContent'', ''IsAsync''}
       \<union> ((if supplied_document_type h i then {''documentType''} else {})
          \<union> (if supplied_custom_fields ''key'' h i then {''CustomFieldKeys''} else {}))"
  by (auto simp: mortgage_payload_def get_prop_def payload_keys_def Let_def set_prop_def
        supplied_custom_fields_collect supplied_document_type_def)

lemma marriage_payload_props:
  "get_prop (marriage_payload h i dn d) ''docName'' = JStr dn"
  "get_prop (marriage_payload h i dn d) ''docContent'' = JStr d"
  "get_prop (marriage_payload h i dn d) ''IsAsync'' = JBool True"
  "payload_keys (marriage_payload h i dn d)
     = {''docName'', ''docContent'', ''IsAsync''}
       \<union> ((if booleanParameter h ''verifyAuthenticity'' i then {''VerifyAuthenticity''} else {})
          \<union> (if supplied_custom_fields ''key'' h i then {''CustomFieldKeys''} else {}))"
  by (auto simp: marriage_payload_def get_prop_def payload_keys_def Let_def set_prop_def
        supplied_custom_fields_collect)

lemmas payload_props =
  plain_payload_props invoice_payload_props keys_payload_props mortgage_payload_props
  marriage_payload_props

lemma payload_of_action:
  "get_prop (payload_of (shape_of a) h i dn d) ''docName'' = JStr dn
   \<and> get_prop (payload_of (shape_of a) h i dn d) ''docContent'' = JStr d
   \<and> get_prop (payload_of (shape_of a) h i dn d) ''IsAsync'' = JBool True
   \<and> payload_keys (payload_of (shape_of a) h i dn d)
       = {''docName'', ''docContent'', ''IsAsync''} \<union> optional_keys a h i"
  by (cases a) (simp_all add: payload_props)

text \<open>A payload that is in the trace of an action has the three fixed keys and the
  optional keys of its document type.\<close>

lemma payload_in_trace:
  assumes "ApiRequest p pl \<in> set (fst (run_action a h i))"
  shows "get_prop pl ''docName'' = JStr (stringParameter h ''docName'' i)
         \<and> (\<exists>d. get_prop pl ''docContent'' = JStr d \<and> d \<noteq> [])
         \<and> get_prop pl ''IsAsync'' = JBool True
         \<and> payload_keys pl = {''docName'', ''docContent'', ''IsAsync''} \<union> optional_keys a h i"
proof -
  from api_request_in_trace [of p pl "shape_of a" h i] assms
  obtain d where d: "snd (input_phase (shape_of a) h i) = Inr d"
    and pl: "pl = payload_of (shape_of a) h i (stringParameter h ''docName'' i) d"
    by (auto simp: run_action_scheme)
  have "d \<noteq> []"
    using input_phase_validated [OF d] by simp
  with payload_of_action [of a h i "stringParameter h ''docName'' i" d] pl
  show ?thesis by auto
qed

section \<open>Runs with optional fields\<close>

text \<open>
  C6. The metadata of a successful result is to record the optional fields exactly when
  they were used. The invoice action with one custom field whose name is empty does
  not: no \<open>customFieldKeys\<close> is sent, yet the metadata records
  \<open>customFieldsUsed: [""]\<close> and \<open>customFieldsCount: 1\<close>, because the invoice action
  tests the unfiltered list where the other actions test the list of non-empty keys.
\<close>

theorem invoice_metadata_records_unused_fields:
  "run_action InvoiceParser
          (sample_host [\<lparr>input_json = JNull, binary_data = None,
                     strings = [(''inputDataType'', ''base64''), (''docName'', ''invoice.pdf''),
                                (''base64Content'', ''JVBERi0x'')],
                     flags = [],
                     field_list = Some [[(''name'', [])]],
                     download = Inr [], remote = Inr (JObj [(''amount'', JStr ''100.00'')])\<rparr>] False) 0
     = ([ApiRequest ''/api/v2/ProcessInvoice''
           (JObj [(''docName'', JStr ''invoice.pdf''), (''docContent'', JStr ''JVBERi0x''),
                  (''IsAsync'', JBool True)])],
        Inr [\<lparr>json = JObj [(''amount'', JStr ''100.00''),
                             (''_metadata'', JObj [(''success'', JBool True),
                                (''message'', JStr ''Invoice processed successfully using AI''),
                                (''processingTimestamp'', JStr ''2024-05-01T10:00:00.000Z''),
                                (''sourceFileName'', JStr ''invoice.pdf''),
                                (''operation'', JStr ''aiInvoiceParser''),
                                (''customFieldsUsed'', JArr [JStr []]),
                                (''customFieldsCount'', JNum 1)])],
               error = None, pairedItem = None\<rparr>])"
  by (simp add: aiInvoiceParser_execute_def host_defs step_defs)

text \<open>The same input to the credit card action: nothing sent, nothing recorded.\<close>

lemma credit_card_metadata_without_fields:
  "run_action CreditCard
          (sample_host [\<lparr>input_json = JNull, binary_data = None,
                     strings = [(''inputDataType'', ''base64''), (''docName'', ''card.png''),
                                (''base64Content'', ''JVBERi0x'')],
                     flags = [],
                     field_list = Some [[(''key'', [])]],
                     download = Inr [], remote = Inr (JObj [(''bank'', JStr ''B'')])\<rparr>] False) 0
     = ([ApiRequest ''/api/v2/ProcessCreditCard''
           (JObj [(''docName'', JStr ''card.png''), (''docContent'', JStr ''JVBERi0x''),
                  (''IsAsync'', JBool True)])],
        Inr [\<lparr>json = JObj [(''bank'', JStr ''B''),
                             (''_metadata'', JObj [(''success'', JBool True),
                                (''message'', JStr ''Credit card processed successfully using AI''),
                                (''processingTimestamp'', JStr ''2024-05-01T10:00:00.000Z''),
                                (''sourceFileName'', JStr ''card.png''),
                                (''operation'', JStr ''aiProcessCreditCard'')])],
               error = None, pairedItem = None\<rparr>])"
  by (simp add: aiProcessCreditCard_execute_def host_defs step_defs)

section \<open>The metadata envelope\<close>

lemma map_of_set_prop:
  "map_of (set_prop obj k v) k' = (if k' = k then Some v else map_of obj k')"
  by (simp add: set_prop_def update_conv')

lemma metadata_of_action:
  "map_of (metadata_of (shape_of a) h i dn) ''success'' = Some (JBool True)
   \<and> (\<exists>m. map_of (metadata_of (shape_of a) h i dn) ''message'' = Some (JStr m))
   \<and> map_of (metadata_of (shape_of a) h i dn) ''processingTimestamp''
       = Some (JStr (toISOString_now h i))
   \<and> map_of (metadata_of (shape_of a) h i dn) ''sourceFileName'' = Some (JStr dn)
   \<and> (\<exists>operation. map_of (metadata_of (shape_of a) h i dn) ''operation'' = Some (JStr operation))"
  by (cases a)
     (simp_all add: aiInvoiceParser_metadata_def aiProcessContract_metadata_def
        aiProcessHealthCard_metadata_def aiProcessMortgageDocument_metadata_def
        aiProcessBankCheque_metadata_def aiProcessCreditCard_metadata_def
        aiProcessPayStub_metadata_def aiProcessMarriageCertificate_metadata_def
        base_metadata_def map_of_set_prop Let_def)

text \<open>
  What every successful result carries, whatever the reply parsed to: one item whose
  JSON is the spread of the reply with \<open>_metadata\<close> set last, and in the metadata the
  success flag, a message, the timestamp of the clock, the caller's document name and an
  operation name.
\<close>

lemma successful_result_envelope:
  assumes "snd (run_action a h i) = Inr out"
  shows "\<exists>processedData md.
           out = [\<lparr>json = JObj (set_prop (spread processedData) ''_metadata'' (JObj md)),
                   error = None, pairedItem = (if node_family a then Some i else None)\<rparr>]
           \<and> get_prop (JObj (set_prop (spread processedData) ''_metadata'' (JObj md))) ''_metadata''
               = JObj md
           \<and> map_of md ''success'' = Some (JBool True)
           \<and> (\<exists>m. map_of md ''message'' = Some (JStr m))
           \<and> map_of md ''processingTimestamp'' = Some (JStr (toISOString_now h i))
           \<and> map_of md ''sourceFileName'' = Some (JStr (stringParameter h ''docName'' i))
           \<and> (\<exists>operation. map_of md ''operation'' = Some (JStr operation))"
proof -
  let ?sh = "shape_of a"
  let ?dn = "stringParameter h ''docName'' i"
  obtain tr r where ip: "input_phase ?sh h i = (tr, r)"
    by (cases "input_phase ?sh h i")
  from assms ip obtain result where
    resp: "response_phase ?sh h i ?dn result = Inr out"
    by (auto simp: run_action_scheme execute_scheme_phases split: sum.splits)
  then obtain pd where
    out: "out = [output_item pd (metadata_of ?sh h i ?dn) (if paired ?sh then Some i else None)]"
    by (auto simp: response_phase_def split: if_splits sum.splits)
  have paired: "paired ?sh = node_family a"
    by (cases a) (simp_all add: node_family_def)
  have get: "get_prop (JObj (set_prop (spread pd) ''_metadata'' (JObj (metadata_of ?sh h i ?dn))))
               ''_metadata'' = JObj (metadata_of ?sh h i ?dn)"
    by (simp add: get_prop_def map_of_set_prop)
  from out paired get metadata_of_action [of a h i ?dn] show ?thesis
    by (intro exI [of _ pd] exI [of _ "metadata_of ?sh h i ?dn"]) (simp add: output_item_def)
qed

section \<open>What the input phase does in each mode\<close>

lemma input_phase_cases:
  "input_phase sh h i =
     (case resolve_docContent h i (mkError sh) (stringParameter h ''inputDataType'' i)
             (urlParameter sh) of
        (tr, Inl e) \<Rightarrow> (tr, Inl e)
      | (tr, Inr c) \<Rightarrow>
          if content_blank c then (tr, Inl (mkError sh (content_required sh)))
          else (case c of
                  None \<Rightarrow> (tr, Inl (mkError sh (content_required sh)))
                | Some s \<Rightarrow>
                    if pdf_check sh \<and> \<not> startsWith s ''JVBERi0x''
                    then (tr, Inl (mkError sh (invalid_pdf_message s)))
                    else (tr, Inr s)))"
  by (auto simp: input_phase_def bind_def require_content_def require_pdf_header_def
        content_blank_def invalid_pdf_message_def throw_def ret_def
        split: prod.splits sum.splits option.splits)

lemma run_action_input_failure:
  "input_phase (shape_of a) h i = (tr, Inl e) \<Longrightarrow> run_action a h i = (tr, Inl e)"
  by (simp add: run_action_scheme execute_scheme_phases)


lemma action_error_shape: "mkError (shape_of a) = action_error a"
  by (simp add: mkError_of_action action_error_def)

lemma resolved_blank:
  assumes "resolve_docContent h i (action_error a) (stringParameter h ''inputDataType'' i)
             (urlParameter (shape_of a)) = (tr, Inr c)"
    and "content_blank c"
  shows "run_action a h i = (tr, Inl (action_error a (content_required (shape_of a))))"
  using assms
  by (intro run_action_input_failure) (simp add: input_phase_cases action_error_shape)

lemma resolved_without_header:
  assumes "resolve_docContent h i (action_error a) (stringParameter h ''inputDataType'' i)
             (urlParameter (shape_of a)) = (tr, Inr (Some s))"
    and "\<not> content_blank (Some s)" and "pdf_check (shape_of a)"
    and "\<not> startsWith s ''JVBERi0x''"
  shows "run_action a h i = (tr, Inl (action_error a (invalid_pdf_message s)))"
  using assms
  by (intro run_action_input_failure) (simp add: input_phase_cases action_error_shape)


lemma resolve_unknown_mode:
  "mode \<notin> {''binaryData'', ''base64'', ''url''} \<Longrightarrow>
     resolve_docContent h i mk mode up = ([], Inl (mk (''Unsupported input data type: '' @ mode)))"
  by (simp add: resolve_docContent_def throw_def)

lemma resolve_base64:
  "resolve_docContent h i mk ''base64'' up
     = ([], Inr (normalize_base64Content (stringParameter h ''base64Content'' i)))"
  by (simp add: resolve_docContent_def ret_def)

lemma resolve_url:
  "httpRequestWithAuthentication h i (stringParameter h up i) = Inr bytes \<Longrightarrow>
     resolve_docContent h i mk ''url'' up
       = ([HttpGet (stringParameter h up i)], Inr (Some (toBase64 bytes)))"
  by (simp add: resolve_docContent_def Let_def)

lemma resolve_binary_missing:
  "getInputData h i = Inr (item0 # rest) \<Longrightarrow>
   binary_missing item0 (stringParameter h ''binaryPropertyName'' i) \<Longrightarrow>
     resolve_docContent h i mk ''binaryData'' up
       = ([], Inl (mk (no_binary_message (stringParameter h ''binaryPropertyName'' i))))"
  by (simp add: resolve_docContent_def Let_def js_index_def binary_missing_def
        no_binary_message_def throw_def)

lemma resolve_binary:
  "getInputData h i = Inr (item0 # rest) \<Longrightarrow>
   \<not> binary_missing item0 (stringParameter h ''binaryPropertyName'' i) \<Longrightarrow>
   getBinaryDataBuffer h i (stringParameter h ''binaryPropertyName'' i) = Inr buffer \<Longrightarrow>
     resolve_docContent h i mk ''binaryData'' up = ([], Inr (Some (toBase64 buffer)))"
  by (simp add: resolve_docContent_def Let_def js_index_def binary_missing_def ret_def)

lemma resolve_failure:
  assumes "resolve_docContent h i (action_error a) (stringParameter h ''inputDataType'' i)
             (urlParameter (shape_of a)) = (tr, Inl e)"
  shows "run_action a h i = (tr, Inl e)"
  using assms
  by (intro run_action_input_failure) (simp add: input_phase_cases action_error_shape)

section \<open>Validation failures, mode by mode\<close>

lemma unknown_mode_reported:
  assumes "stringParameter h ''inputDataType'' i \<notin> {''binaryData'', ''base64'', ''url''}"
  shows "run_action a h i
           = ([], Inl (action_error a (''Unsupported input data type: ''
                                        @ stringParameter h ''inputDataType'' i)))"
  by (rule resolve_failure) (rule resolve_unknown_mode [OF assms])

lemma missing_binary_reported:
  assumes "stringParameter h ''inputDataType'' i = ''binaryData''"
    and "getInputData h i = Inr (item # rest)"
    and "binary_missing item (stringParameter h ''binaryPropertyName'' i)"
  shows "run_action a h i
           = ([], Inl (action_error a
                         (no_binary_message (stringParameter h ''binaryPropertyName'' i))))"
  by (rule resolve_failure) (simp add: assms(1) resolve_binary_missing [OF assms(2,3)])

lemma base64_blank_reported:
  assumes "stringParameter h ''inputDataType'' i = ''base64''"
    and "content_blank (normalize_base64Content (stringParameter h ''base64Content'' i))"
  shows "run_action a h i = ([], Inl (action_error a (content_required (shape_of a))))"
  by (rule resolved_blank [OF _ assms(2)]) (simp add: assms(1) resolve_base64)

lemma base64_header_reported:
  assumes "stringParameter h ''inputDataType'' i = ''base64''"
    and "normalize_base64Content (stringParameter h ''base64Content'' i) = Some s"
    and "\<not> content_blank (Some s)" and "pdf_check (shape_of a)"
    and "\<not> startsWith s ''JVBERi0x''"
  shows "run_action a h i = ([], Inl (action_error a (invalid_pdf_message s)))"
  by (rule resolved_without_header [OF _ assms(3,4,5)]) (simp add: assms(1,2) resolve_base64)

lemma binary_blank_reported:
  assumes "stringParameter h ''inputDataType'' i = ''binaryData''"
    and "getInputData h i = Inr (item # rest)"
    and "\<not> binary_missing item (stringParameter h ''binaryPropertyName'' i)"
    and "getBinaryDataBuffer h i (stringParameter h ''binaryPropertyName'' i) = Inr buffer"
    and "content_blank (Some (toBase64 buffer))"
  shows "run_action a h i = ([], Inl (action_error a (content_required (shape_of a))))"
  by (rule resolved_blank [OF _ assms(5)]) (simp add: assms(1) resolve_binary [OF assms(2,3,4)])

lemma binary_header_reported:
  assumes "stringParameter h ''inputDataType'' i = ''binaryData''"
    and "getInputData h i = Inr (item # rest)"
    and "\<not> binary_missing item (stringParameter h ''binaryPropertyName'' i)"
    and "getBinaryDataBuffer h i (stringParameter h ''binaryPropertyName'' i) = Inr buffer"
    and "\<not> content_blank (Some (toBase64 buffer))" and "pdf_check (shape_of a)"
    and "\<not> startsWith (toBase64 buffer) ''JVBERi0x''"
  shows "run_action a h i = ([], Inl (action_error a (invalid_pdf_message (toBase64 buffer))))"
  by (rule resolved_without_header [OF _ assms(5,6,7)])
     (simp add: assms(1) resolve_binary [OF assms(2,3,4)])

lemma url_blank_reported:
  assumes "stringParameter h ''inputDataType'' i = ''url''"
    and "httpRequestWithAuthentication h i (stringParameter h (urlParameter (shape_of a)) i)
           = Inr bytes"
    and "content_blank (Some (toBase64 bytes))"
  shows "run_action a h i
           = ([HttpGet (stringParameter h (urlParameter (shape_of a)) i)],
              Inl (action_error a (content_required (shape_of a))))"
  by (rule resolved_blank [OF _ assms(3)]) (simp add: assms(1) resolve_url [OF assms(2)])

lemma url_header_reported:
  assumes "stringParameter h ''inputDataType'' i = ''url''"
    and "httpRequestWithAuthentication h i (stringParameter h (urlParameter (shape_of a)) i)
           = Inr bytes"
    and "\<not> content_blank (Some (toBase64 bytes))" and "pdf_check (shape_of a)"
    and "\<not> startsWith (toBase64 bytes) ''JVBERi0x''"
  shows "run_action a h i
           = ([HttpGet (stringParameter h (urlParameter (shape_of a)) i)],
              Inl (action_error a (invalid_pdf_message (toBase64 bytes))))"
  by (rule resolved_without_header [OF _ assms(3,4,5)])
     (simp add: assms(1) resolve_url [OF assms(2)])

lemma validation_errors_are_validation_errors:
  "is_validation_error (action_error a (''Unsupported input data type: '' @ m))"
  "is_validation_error (action_error a (no_binary_message p))"
  "is_validation_error (action_error a (content_required (shape_of a)))"
  "is_validation_error (action_error a (invalid_pdf_message s))"
  by (cases a; simp add: action_error_def node_family_def validation_message_def startsWith_def
        no_binary_message_def invalid_pdf_message_def content_required_messages_def)+

text \<open>
  C1, as the code has it. In every action each input validation failure is reported, and
  reported before any request is submitted to the remote API:
  \<^item> an unrecognised input mode raises \<open>Unsupported input data type\<close>;
  \<^item> in binary mode, a binary property that is not on the item the action reads raises
    \<open>No binary data found\<close>;
  \<^item> in every mode, content that resolves to nothing, to the empty string or to white
    space raises the action's \<open>content is required\<close> error;
  \<^item> in the actions that check the PDF header (invoice, contract, mortgage document,
    bank cheque), content that does not start with \<open>JVBERi0x\<close> raises
    \<open>Invalid PDF content\<close>.

  In the binary and base64 modes and for an unrecognised mode no HTTP request at all has
  been issued when the error is raised; in URL mode exactly one has, the GET that
  downloads the document to validate. Conversely, whenever an action throws one of these
  errors, no request to the remote API is in its trace.
\<close>

theorem validation_error_before_api_request:
  "(stringParameter h ''inputDataType'' i \<notin> {''binaryData'', ''base64'', ''url''} \<longrightarrow>
      run_action a h i
        = ([], Inl (action_error a (''Unsupported input data type: ''
                                     @ stringParameter h ''inputDataType'' i))))
   \<and> (stringParameter h ''inputDataType'' i = ''binaryData'' \<longrightarrow>
      getInputData h i = Inr (item # rest) \<longrightarrow>
      binary_missing item (stringParameter h ''binaryPropertyName'' i) \<longrightarrow>
      run_action a h i
        = ([], Inl (action_error a
                      (no_binary_message (stringParameter h ''binaryPropertyName'' i)))))
   \<and> (stringParameter h ''inputDataType'' i = ''base64'' \<longrightarrow>
      content_blank (normalize_base64Content (stringParameter h ''base64Content'' i)) \<longrightarrow>
      run_action a h i = ([], Inl (action_error a (content_required (shape_of a)))))
   \<and> (stringParameter h ''inputDataType'' i = ''base64'' \<longrightarrow>
      normalize_base64Content (stringParameter h ''base64Content'' i) = Some s \<longrightarrow>
      \<not> content_blank (Some s) \<longrightarrow> pdf_check (shape_of a) \<longrightarrow>
      \<not> startsWith s ''JVBERi0x'' \<longrightarrow>
      run_action a h i = ([], Inl (action_error a (invalid_pdf_message s))))
   \<and> (stringParameter h ''inputDataType'' i = ''binaryData'' \<longrightarrow>
      getInputData h i = Inr (item # rest) \<longrightarrow>
      \<not> binary_missing item (stringParameter h ''binaryPropertyName'' i) \<longrightarrow>
      getBinaryDataBuffer h i (stringParameter h ''binaryPropertyName'' i) = Inr buffer \<longrightarrow>
      content_blank (Some (toBase64 buffer)) \<longrightarrow>
      run_action a h i = ([], Inl (action_error a (content_required (shape_of a)))))
   \<and> (stringParameter h ''inputDataType'' i = ''binaryData'' \<longrightarrow>
      getInputData h i = Inr (item # rest) \<longrightarrow>
      \<not> binary_missing item (stringParameter h ''binaryPropertyName'' i) \<longrightarrow>
      getBinaryDataBuffer h i (stringParameter h ''binaryPropertyName'' i) = Inr buffer \<longrightarrow>
      \<not> content_blank (Some (toBase64 buffer)) \<longrightarrow> pdf_check (shape_of a) \<longrightarrow>
      \<not> startsWith (toBase64 buffer) ''JVBERi0x'' \<longrightarrow>
      run_action a h i = ([], Inl (action_error a (invalid_pdf_message (toBase64 buffer)))))
   \<and> (stringParameter h ''inputDataType'' i = ''url'' \<longrightarrow>
      httpRequestWithAuthentication h i (stringParameter h (urlParameter (shape_of a)) i)
        = Inr bytes \<longrightarrow>
      content_blank (Some (toBase64 bytes)) \<longrightarrow>
      run_action a h i
        = ([HttpGet (stringParameter h (urlParameter (shape_of a)) i)],
           Inl (action_error a (content_required (shape_of a)))))
   \<and> (stringParameter h ''inputDataType'' i = ''url'' \<longrightarrow>
      httpRequestWithAuthentication h i (stringParameter h (urlParameter (shape_of a)) i)
        = Inr bytes \<longrightarrow>
      \<not> content_blank (Some (toBase64 bytes)) \<longrightarrow> pdf_check (shape_of a) \<longrightarrow>
      \<not> startsWith (toBase64 bytes) ''JVBERi0x'' \<longrightarrow>
      run_action a h i
        = ([HttpGet (stringParameter h (urlParameter (shape_of a)) i)],
           Inl (action_error a (invalid_pdf_message (toBase64 bytes)))))
   \<and> (is_validation_error (action_error a (''Unsupported input data type: ''
                                              @ stringParameter h ''inputDataType'' i))
      \<and> is_validation_error (action_error a
            (no_binary_message (stringParameter h ''binaryPropertyName'' i)))
      \<and> is_validation_error (action_error a (content_required (shape_of a)))
      \<and> is_validation_error (action_error a (invalid_pdf_message s)))
   \<and> (\<forall>e. snd (run_action a h i) = Inl e \<longrightarrow> is_validation_error e \<longrightarrow>
         (\<forall>ev \<in> set (fst (run_action a h i)). \<not> is_api_request ev)
         \<and> (stringParameter h ''inputDataType'' i \<noteq> ''url'' \<longrightarrow> fst (run_action a h i) = [])
         \<and> (stringParameter h ''inputDataType'' i = ''url'' \<longrightarrow>
              fst (run_action a h i)
                = [HttpGet (stringParameter h (urlParameter (shape_of a)) i)]))"
proof (intro conjI impI allI)
  assume "stringParameter h ''inputDataType'' i \<notin> {''binaryData'', ''base64'', ''url''}"
  then show "run_action a h i
        = ([], Inl (action_error a (''Unsupported input data type: ''
                                     @ stringParameter h ''inputDataType'' i)))"
    by (rule unknown_mode_reported)
next
  assume "stringParameter h ''inputDataType'' i = ''binaryData''"
    and "getInputData h i = Inr (item # rest)"
    and "binary_missing item (stringParameter h ''binaryPropertyName'' i)"
  then show "run_action a h i
        = ([], Inl (action_error a
                      (no_binary_message (stringParameter h ''binaryPropertyName'' i))))"
    by (rule missing_binary_reported)
next
  assume "stringParameter h ''inputDataType'' i = ''base64''"
    and "content_blank (normalize_base64Content (stringParameter h ''base64Content'' i))"
  then show "run_action a h i = ([], Inl (action_error a (content_required (shape_of a))))"
    by (rule base64_blank_reported)
next
  assume "stringParameter h ''inputDataType'' i = ''base64''"
    and "normalize_base64Content (stringParameter h ''base64Content'' i) = Some s"
    and "\<not> content_blank (Some s)" and "pdf_check (shape_of a)"
    and "\<not> startsWith s ''JVBERi0x''"
  then show "run_action a h i = ([], Inl (action_error a (invalid_pdf_message s)))"
    by (rule base64_header_reported)
next
  assume "stringParameter h ''inputDataType'' i = ''binaryData''"
    and "getInputData h i = Inr (item # rest)"
    and "\<not> binary_missing item (stringParameter h ''binaryPropertyName'' i)"
    and "getBinaryDataBuffer h i (stringParameter h ''binaryPropertyName'' i) = Inr buffer"
    and "content_blank (Some (toBase64 buffer))"
  then show "run_action a h i = ([], Inl (action_error a (content_required (shape_of a))))"
    by (rule binary_blank_reported)
next
  assume "stringParameter h ''inputDataType'' i = ''binaryData''"
    and "getInputData h i = Inr (item # rest)"
    and "\<not> binary_missing item (stringParameter h ''binaryPropertyName'' i)"
    and "getBinaryDataBuffer h i (stringParameter h ''binaryPropertyName'' i) = Inr buffer"
    and "\<not> content_blank (Some (toBase64 buffer))" and "pdf_check (shape_of a)"
    and "\<not> startsWith (toBase64 buffer) ''JVBERi0x''"
  then show "run_action a h i
               = ([], Inl (action_error a (invalid_pdf_message (toBase64 buffer))))"
    by (rule binary_header_reported)
next
  assume "stringParameter h ''inputDataType'' i = ''url''"
    and "httpRequestWithAuthentication h i (stringParameter h (urlParameter (shape_of a)) i)
           = Inr bytes"
    and "content_blank (Some (toBase64 bytes))"
  then show "run_action a h i
        = ([HttpGet (stringParameter h (urlParameter (shape_of a)) i)],
           Inl (action_error a (content_required (shape_of a))))"
    by (rule url_blank_reported)
next
  assume "stringParameter h ''inputDataType'' i = ''url''"
    and "httpRequestWithAuthentication h i (stringParameter h (urlParameter (shape_of a)) i)
           = Inr bytes"
    and "\<not> content_blank (Some (toBase64 bytes))" and "pdf_check (shape_of a)"
    and "\<not> startsWith (toBase64 bytes) ''JVBERi0x''"
  then show "run_action a h i
        = ([HttpGet (stringParameter h (urlParameter (shape_of a)) i)],
           Inl (action_error a (invalid_pdf_message (toBase64 bytes))))"
    by (rule url_header_reported)
next
  show "is_validation_error (action_error a (''Unsupported input data type: ''
                                              @ stringParameter h ''inputDataType'' i))"
    by (rule validation_errors_are_validation_errors)
next
  show "is_validation_error (action_error a
            (no_binary_message (stringParameter h ''binaryPropertyName'' i)))"
    by (rule validation_errors_are_validation_errors)
next
  show "is_validation_error (action_error a (content_required (shape_of a)))"
    by (rule validation_errors_are_validation_errors)
next
  show "is_validation_error (action_error a (invalid_pdf_message s))"
    by (rule validation_errors_are_validation_errors)
next
  fix e assume e: "snd (run_action a h i) = Inl e" "is_validation_error e"
  from validation_error_trace [OF e]
  show "\<forall>ev \<in> set (fst (run_action a h i)). \<not> is_api_request ev" by blast
next
  fix e assume e: "snd (run_action a h i) = Inl e" "is_validation_error e"
    and m: "stringParameter h ''inputDataType'' i \<noteq> ''url''"
  from validation_error_trace [OF e] m
  show "fst (run_action a h i) = []" by blast
next
  fix e assume e: "snd (run_action a h i) = Inl e" "is_validation_error e"
    and m: "stringParameter h ''inputDataType'' i = ''url''"
  from validation_error_trace [OF e] m
  show "fst (run_action a h i) = [HttpGet (stringParameter h (urlParameter (shape_of a)) i)]"
    by blast
qed

text \<open>
  One run for each kind of failure: an unknown mode, a missing binary property, blank
  base64 text, the base64 text \<open>bm90YXBkZg==\<close> of the specification's scenario (not a
  PDF), an empty and a non-PDF binary buffer, an empty and a non-PDF download.
\<close>

theorem validation_error_before_api_request_witness:
  "run_action InvoiceParser
      (sample_host [plain_item [(''inputDataType'', ''ftp'')]] False) 0
     = ([], Inl (Error ''Unsupported input data type: ftp''))
   \<and> run_action Contract
      (sample_host [plain_item [(''inputDataType'', ''binaryData''), (''binaryPropertyName'', ''data'')]] False) 0
     = ([], Inl (NodeOperationError (no_binary_message ''data'')))
   \<and> run_action HealthCard
      (sample_host [plain_item [(''inputDataType'', ''base64''), (''base64Content'', ''   '')]] False) 0
     = ([], Inl (Error ''Health card content is required''))
   \<and> run_action InvoiceParser
      (sample_host [plain_item [(''inputDataType'', ''base64''), (''base64Content'', ''bm90YXBkZg=='')]] False) 0
     = ([], Inl (Error (invalid_pdf_message ''bm90YXBkZg=='')))
   \<and> run_action MortgageDocument
      (sample_host [(plain_item [(''inputDataType'', ''binaryData''), (''binaryPropertyName'', ''data'')])\<lparr>binary_data := Some [(''data'', [])]\<rparr>] False) 0
     = ([], Inl (Error ''Mortgage document content is required''))
   \<and> run_action BankCheque
      (sample_host [(plain_item [(''inputDataType'', ''binaryData''), (''binaryPropertyName'', ''data'')])\<lparr>binary_data := Some [(''data'', [0x6E, 0x6F, 0x74, 0x61, 0x70, 0x64, 0x66])]\<rparr>] False) 0
     = ([], Inl (NodeOperationError (invalid_pdf_message ''bm90YXBkZg=='')))
   \<and> run_action HealthCard
      (sample_host [(plain_item [(''inputDataType'', ''url''), (''healthCardUrl'', ''https://example.com/doc'')])\<lparr>download := Inr []\<rparr>] False) 0
     = ([HttpGet ''https://example.com/doc''], Inl (Error ''Health card content is required''))
   \<and> run_action InvoiceParser
      (sample_host [(plain_item [(''inputDataType'', ''url''), (''invoiceUrl'', ''https://example.com/doc'')])\<lparr>download := Inr [0x6E, 0x6F, 0x74, 0x61, 0x70, 0x64, 0x66]\<rparr>] False) 0
     = ([HttpGet ''https://example.com/doc''], Inl (Error (invalid_pdf_message ''bm90YXBkZg=='')))
   \<and> is_validation_error (Error (invalid_pdf_message ''bm90YXBkZg==''))"
proof -
  let ?h1 = "sample_host [plain_item [(''inputDataType'', ''ftp'')]] False"
  let ?h2 = "sample_host [plain_item [(''inputDataType'', ''binaryData''), (''binaryPropertyName'', ''data'')]] False"
  let ?h3 = "sample_host [plain_item [(''inputDataType'', ''base64''), (''base64Content'', ''   '')]] False"
  let ?h4 = "sample_host [plain_item [(''inputDataType'', ''base64''), (''base64Content'', ''bm90YXBkZg=='')]] False"
  let ?h5 = "sample_host [(plain_item [(''inputDataType'', ''binaryData''), (''binaryPropertyName'', ''data'')])\<lparr>binary_data := Some [(''data'', [])]\<rparr>] False"
  let ?h6 = "sample_host [(plain_item [(''inputDataType'', ''binaryData''), (''binaryPropertyName'', ''data'')])\<lparr>binary_data := Some [(''data'', [0x6E, 0x6F, 0x74, 0x61, 0x70, 0x64, 0x66])]\<rparr>] False"
  let ?h7 = "sample_host [(plain_item [(''inputDataType'', ''url''), (''healthCardUrl'', ''https://example.com/doc'')])\<lparr>download := Inr []\<rparr>] False"
  let ?h8 = "sample_host [(plain_item [(''inputDataType'', ''url''), (''invoiceUrl'', ''https://example.com/doc'')])\<lparr>download := Inr [0x6E, 0x6F, 0x74, 0x61, 0x70, 0x64, 0x66]\<rparr>] False"
  have errs: "action_error InvoiceParser = Error" "action_error HealthCard = Error"
    "action_error MortgageDocument = Error" "action_error Contract = NodeOperationError"
    "action_error BankCheque = NodeOperationError"
    by (simp_all add: action_error_def node_family_def)
  have notapdf: "toBase64 [0x6E, 0x6F, 0x74, 0x61, 0x70, 0x64, 0x66] = ''bm90YXBkZg==''"
    by (simp add: b64_char_def b64_alphabet_def)
  have bad: "\<not> content_blank (Some ''bm90YXBkZg=='')" "\<not> startsWith ''bm90YXBkZg=='' ''JVBERi0x''"
    by (simp_all add: content_blank_def trim_def is_js_space_def startsWith_def)
  have blank: "content_blank (Some [])" "content_blank (Some ''   '')"
    by (simp_all add: content_blank_def trim_def is_js_space_def)

  have m1: "stringParameter ?h1 ''inputDataType'' 0 = ''ftp''"
    by (simp add: host_defs plain_item_def)
  then have n1: "stringParameter ?h1 ''inputDataType'' 0 \<notin> {''binaryData'', ''base64'', ''url''}"
    by simp
  note t1 = validation_error_before_api_request
         [where a = InvoiceParser and h = "?h1" and i = 0]
  have "run_action InvoiceParser ?h1 0
          = ([], Inl (action_error InvoiceParser (''Unsupported input data type: ''
                                     @ stringParameter ?h1 ''inputDataType'' 0)))"
    by (rule t1 [THEN conjunct1, THEN mp, OF n1])
  then have r1: "run_action InvoiceParser ?h1 0 = ([], Inl (Error ''Unsupported input data type: ftp''))"
    by (simp add: m1 errs)

  have m2: "stringParameter ?h2 ''inputDataType'' 0 = ''binaryData''"
    and p2: "stringParameter ?h2 ''binaryPropertyName'' 0 = ''data''"
    and i2: "getInputData ?h2 0 = Inr (\<lparr>item_json = JNull, item_binary = None\<rparr> # [])"
    by (simp_all add: host_defs plain_item_def)
  have b2: "binary_missing \<lparr>item_json = JNull, item_binary = None\<rparr>
              (stringParameter ?h2 ''binaryPropertyName'' 0)"
    by (simp add: binary_missing_def)
  note t2 = validation_error_before_api_request
         [where a = Contract and h = "?h2" and i = 0
            and item = "\<lparr>item_json = JNull, item_binary = None\<rparr>" and rest = "[]"]
  have "run_action Contract ?h2 0
          = ([], Inl (action_error Contract
                        (no_binary_message (stringParameter ?h2 ''binaryPropertyName'' 0))))"
    by (rule t2 [THEN conjunct2, THEN conjunct1, THEN mp, OF m2, THEN mp, OF i2, THEN mp, OF b2])
  then have r2: "run_action Contract ?h2 0 = ([], Inl (NodeOperationError (no_binary_message ''data'')))"
    by (simp add: p2 errs)

  have m3: "stringParameter ?h3 ''inputDataType'' 0 = ''base64''"
    and c3: "normalize_base64Content (stringParameter ?h3 ''base64Content'' 0) = Some ''   ''"
    by (simp_all add: host_defs plain_item_def normalize_base64Content_def str_includes_def)
  from c3 blank have b3: "content_blank (normalize_base64Content (stringParameter ?h3 ''base64Content'' 0))"
    by simp
  note t3 = validation_error_before_api_request
         [where a = HealthCard and h = "?h3" and i = 0]
  have "run_action HealthCard ?h3 0
          = ([], Inl (action_error HealthCard (content_required (shape_of HealthCard))))"
    by (rule t3 [THEN conjunct2, THEN conjunct2, THEN conjunct1, THEN mp, OF m3, THEN mp, OF b3])
  then have r3: "run_action HealthCard ?h3 0 = ([], Inl (Error ''Health card content is required''))"
    by (simp add: errs)

  have m4: "stringParameter ?h4 ''inputDataType'' 0 = ''base64''"
    and c4: "normalize_base64Content (stringParameter ?h4 ''base64Content'' 0) = Some ''bm90YXBkZg==''"
    by (simp_all add: host_defs plain_item_def normalize_base64Content_def str_includes_def)
  have k4: "pdf_check (shape_of InvoiceParser)" by simp
  note t4 = validation_error_before_api_request
         [where a = InvoiceParser and h = "?h4" and i = 0 and s = "''bm90YXBkZg==''"]
  have raw4: "run_action InvoiceParser ?h4 0
          = ([], Inl (action_error InvoiceParser (invalid_pdf_message ''bm90YXBkZg=='')))"
    by (rule t4 [THEN conjunct2, THEN conjunct2, THEN conjunct2, THEN conjunct1, THEN mp, OF m4, THEN mp, OF c4, THEN mp, OF bad(1), THEN mp, OF k4, THEN mp, OF bad(2)])
  then have r4: "run_action InvoiceParser ?h4 0 = ([], Inl (Error (invalid_pdf_message ''bm90YXBkZg=='')))"
    by (simp add: errs)
  have v4: "is_validation_error (action_error InvoiceParser (invalid_pdf_message ''bm90YXBkZg==''))"
    by (rule t4 [THEN conjunct2, THEN conjunct2, THEN conjunct2, THEN conjunct2, THEN conjunct2, THEN conjunct2, THEN conjunct2, THEN conjunct2, THEN conjunct1, THEN conjunct2, THEN conjunct2, THEN conjunct2])
  from v4 have n4: "is_validation_error (Error (invalid_pdf_message ''bm90YXBkZg==''))"
    by (simp only: errs)

  have m5: "stringParameter ?h5 ''inputDataType'' 0 = ''binaryData''"
    and i5: "getInputData ?h5 0
               = Inr (\<lparr>item_json = JNull,
                       item_binary = Some (\<lambda>p. map_of [(''data'', [] :: byte list)] p \<noteq> None)\<rparr> # [])"
    and g5: "getBinaryDataBuffer ?h5 0 (stringParameter ?h5 ''binaryPropertyName'' 0) = Inr []"
    by (simp_all add: host_defs plain_item_def)
  have b5: "\<not> binary_missing \<lparr>item_json = JNull,
                       item_binary = Some (\<lambda>p. map_of [(''data'', [] :: byte list)] p \<noteq> None)\<rparr>
              (stringParameter ?h5 ''binaryPropertyName'' 0)"
    by (simp add: binary_missing_def host_defs plain_item_def)
  have e5: "content_blank (Some (toBase64 ([] :: byte list)))"
    using blank by simp
  note t5 = validation_error_before_api_request
         [where a = MortgageDocument and h = "?h5" and i = 0 and rest = "[]" and buffer = "[]"
            and item = "\<lparr>item_json = JNull,
                       item_binary = Some (\<lambda>p. map_of [(''data'', [] :: byte list)] p \<noteq> None)\<rparr>"]
  have "run_action MortgageDocument ?h5 0
          = ([], Inl (action_error MortgageDocument (content_required (shape_of MortgageDocument))))"
    by (rule t5 [THEN conjunct2, THEN conjunct2, THEN conjunct2, THEN conjunct2, THEN conjunct1, THEN mp, OF m5, THEN mp, OF i5, THEN mp, OF b5, THEN mp, OF g5, THEN mp, OF e5])
  then have r5: "run_action MortgageDocument ?h5 0
                   = ([], Inl (Error ''Mortgage document content is required''))"
    by (simp add: errs)

  have m6: "stringParameter ?h6 ''inputDataType'' 0 = ''binaryData''"
    and i6: "getInputData ?h6 0
               = Inr (\<lparr>item_json = JNull,
                       item_binary = Some (\<lambda>p. map_of [(''data'', [0x6E, 0x6F, 0x74, 0x61, 0x70, 0x64, 0x66 :: byte])] p \<noteq> None)\<rparr> # [])"
    and g6: "getBinaryDataBuffer ?h6 0 (stringParameter ?h6 ''binaryPropertyName'' 0)
               = Inr [0x6E, 0x6F, 0x74, 0x61, 0x70, 0x64, 0x66]"
    by (simp_all add: host_defs plain_item_def)
  have b6: "\<not> binary_missing \<lparr>item_json = JNull,
                       item_binary = Some (\<lambda>p. map_of [(''data'', [0x6E, 0x6F, 0x74, 0x61, 0x70, 0x64, 0x66 :: byte])] p \<noteq> None)\<rparr>
              (stringParameter ?h6 ''binaryPropertyName'' 0)"
    by (simp add: binary_missing_def host_defs plain_item_def)
  have e6: "\<not> content_blank (Some (toBase64 [0x6E, 0x6F, 0x74, 0x61, 0x70, 0x64, 0x66]))"
    "\<not> startsWith (toBase64 [0x6E, 0x6F, 0x74, 0x61, 0x70, 0x64, 0x66]) ''JVBERi0x''"
    unfolding notapdf by (rule bad)+
  have k6: "pdf_check (shape_of BankCheque)" by simp
  note t6 = validation_error_before_api_request
         [where a = BankCheque and h = "?h6" and i = 0 and rest = "[]"
            and buffer = "[0x6E, 0x6F, 0x74, 0x61, 0x70, 0x64, 0x66]"
            and item = "\<lparr>item_json = JNull,
                       item_binary = Some (\<lambda>p. map_of [(''data'', [0x6E, 0x6F, 0x74, 0x61, 0x70, 0x64, 0x66 :: byte])] p \<noteq> None)\<rparr>"]
  have "run_action BankCheque ?h6 0
          = ([], Inl (action_error BankCheque
                        (invalid_pdf_message (toBase64 [0x6E, 0x6F, 0x74, 0x61, 0x70, 0x64, 0x66]))))"
    by (rule t6 [THEN conjunct2, THEN conjunct2, THEN conjunct2, THEN conjunct2, THEN conjunct2, THEN conjunct1, THEN mp, OF m6, THEN mp, OF i6, THEN mp, OF b6, THEN mp, OF g6, THEN mp, OF e6(1), THEN mp, OF k6, THEN mp, OF e6(2)])
  then have r6: "run_action BankCheque ?h6 0
                   = ([], Inl (NodeOperationError (invalid_pdf_message ''bm90YXBkZg=='')))"
    by (simp only: notapdf errs)

  have m7: "stringParameter ?h7 ''inputDataType'' 0 = ''url''"
    and u7: "stringParameter ?h7 (urlParameter (shape_of HealthCard)) 0 = ''https://example.com/doc''"
    and d7: "httpRequestWithAuthentication ?h7 0
               (stringParameter ?h7 (urlParameter (shape_of HealthCard)) 0) = Inr []"
    by (simp_all add: host_defs plain_item_def)
  note t7 = validation_error_before_api_request
         [where a = HealthCard and h = "?h7" and i = 0 and bytes = "[]"]
  have "run_action HealthCard ?h7 0
          = ([HttpGet (stringParameter ?h7 (urlParameter (shape_of HealthCard)) 0)],
             Inl (action_error HealthCard (content_required (shape_of HealthCard))))"
    by (rule t7 [THEN conjunct2, THEN conjunct2, THEN conjunct2, THEN conjunct2, THEN conjunct2, THEN conjunct2, THEN conjunct1, THEN mp, OF m7, THEN mp, OF d7, THEN mp, OF e5])
  then have r7: "run_action HealthCard ?h7 0
                   = ([HttpGet ''https://example.com/doc''],
                      Inl (Error ''Health card content is required''))"
    using u7 by (simp add: errs)

  have m8: "stringParameter ?h8 ''inputDataType'' 0 = ''url''"
    and u8: "stringParameter ?h8 (urlParameter (shape_of InvoiceParser)) 0 = ''https://example.com/doc''"
    and d8: "httpRequestWithAuthentication ?h8 0
               (stringParameter ?h8 (urlParameter (shape_of InvoiceParser)) 0)
               = Inr [0x6E, 0x6F, 0x74, 0x61, 0x70, 0x64, 0x66]"
    by (simp_all add: host_defs plain_item_def)
  note t8 = validation_error_before_api_request
         [where a = InvoiceParser and h = "?h8" and i = 0
            and bytes = "[0x6E, 0x6F, 0x74, 0x61, 0x70, 0x64, 0x66]"]
  have "run_action InvoiceParser ?h8 0
          = ([HttpGet (stringParameter ?h8 (urlParameter (shape_of InvoiceParser)) 0)],
             Inl (action_error InvoiceParser
                    (invalid_pdf_message (toBase64 [0x6E, 0x6F, 0x74, 0x61, 0x70, 0x64, 0x66]))))"
    by (rule t8 [THEN conjunct2, THEN conjunct2, THEN conjunct2, THEN conjunct2, THEN conjunct2, THEN conjunct2, THEN conjunct2, THEN conjunct1, THEN mp, OF m8, THEN mp, OF d8, THEN mp, OF e6(1), THEN mp, OF k4, THEN mp, OF e6(2)])
  then have r8: "run_action InvoiceParser ?h8 0
                   = ([HttpGet ''https://example.com/doc''],
                      Inl (Error (invalid_pdf_message ''bm90YXBkZg=='')))"
    by (simp only: notapdf errs u8)

  from r1 r2 r3 r4 r5 r6 r7 r8 n4 show ?thesis
    by (intro conjI)
qed

section \<open>The request is made, with the payload of the document type\<close>








section \<open>Runs that submit a request\<close>



end
